theory Spec2Isabelle
  imports Complex_Main "HOL-Library.AList"
begin

section \<open>Analytics services of the impact-investing backend\<close>

text \<open>
  This theory embeds the statistical part of \<^verbatim>\<open>backend/analytics_services.py\<close>:
  peer benchmarking (\<^verbatim>\<open>PeerBenchmarkService.calculate_benchmarks\<close>), the correlation
  engine (\<^verbatim>\<open>CorrelationAnalysisService.calculate_correlations\<close>) and the Monte Carlo
  simulator (\<^verbatim>\<open>MonteCarloSimulationService.run_simulation\<close>).

  Numbers. The columns are SQL \<^verbatim>\<open>Float\<close>s and the code computes with Python floats.
  They are modelled by the type \<^typ>\<open>real\<close>: every arithmetic operation is the exact one,
  so rounding, infinities and NaN are outside the model, except in two places. A power
  \<^verbatim>\<open>**\<close> that overflows raises \<^verbatim>\<open>OverflowError\<close>, and the model has that error. The
  correlation function is given a second time on IEEE 754 doubles, because the equality
  of its result with 1.0 depends on the rounding. Python integers
  (iteration counts, the horizon, dates as day numbers) are \<^typ>\<open>int\<close>, lengths and list
  positions are \<^typ>\<open>nat\<close>. A nullable column is an \<^typ>\<open>'a option\<close>, with \<^term>\<open>None\<close>
  for SQL NULL and Python \<^verbatim>\<open>None\<close>.

  Errors. Every \<^verbatim>\<open>raise\<close> is a value of the type \<open>error\<close> below, returned on the
  left of a sum. \<^verbatim>\<open>ValueError\<close> carries the message the source gives it. The
  constructors are the exception classes that the modelled code can raise;
  \<open>exception_class\<close> gives the name of the class.
\<close>

datatype error =
    ValueError string
  | StatisticsError
  | TypeError
  | IndexError
  | ZeroDivisionError
  | OverflowError

fun exception_class :: "error \<Rightarrow> string" where
  "exception_class (ValueError msg) = ''ValueError''"
| "exception_class StatisticsError = ''StatisticsError''"
| "exception_class TypeError = ''TypeError''"
| "exception_class IndexError = ''IndexError''"
| "exception_class ZeroDivisionError = ''ZeroDivisionError''"
| "exception_class OverflowError = ''OverflowError''"

subsection \<open>Python built-ins used by the services\<close>

text \<open>Truthiness of an optional number: \<^verbatim>\<open>None\<close> and zero are both false.\<close>

definition truthy :: "real option \<Rightarrow> bool" where
  "truthy v = (case v of None \<Rightarrow> False | Some x \<Rightarrow> x \<noteq> 0)"

definition truthy_int :: "int option \<Rightarrow> bool" where
  "truthy_int v = (case v of None \<Rightarrow> False | Some x \<Rightarrow> x \<noteq> 0)"

definition truthy_str :: "string option \<Rightarrow> bool" where
  "truthy_str v = (case v of None \<Rightarrow> False | Some s \<Rightarrow> s \<noteq> [])"

text \<open>\<^verbatim>\<open>a or b\<close> on optional numbers: the first operand when it is truthy, else the second.\<close>

definition py_or :: "real option \<Rightarrow> real option \<Rightarrow> real option" where
  "py_or a b = (if truthy a then a else b)"

text \<open>\<^verbatim>\<open>a or 0\<close>: the final fallback is a number, so the result is one.\<close>

definition or_zero :: "real option \<Rightarrow> real" where
  "or_zero a = (case a of None \<Rightarrow> 0 | Some x \<Rightarrow> x)"

text \<open>\<^verbatim>\<open>int(x)\<close> on a float truncates towards zero.\<close>

definition py_int :: "real \<Rightarrow> int" where
  "py_int x = (if 0 \<le> x then \<lfloor>x\<rfloor> else \<lceil>x\<rceil>)"

text \<open>
  Subscription \<^verbatim>\<open>xs[i]\<close> of a list of length \<open>n\<close>: positions \<open>0\<close> to \<open>n - 1\<close> from the
  front, \<open>- 1\<close> down to \<open>- n\<close> from the back, and \<^verbatim>\<open>IndexError\<close> for any other \<open>i\<close>.
\<close>

definition py_index :: "'a list \<Rightarrow> int \<Rightarrow> error + 'a" where
  "py_index xs i =
     (if 0 \<le> i \<and> i < int (length xs) then Inr (xs ! nat i)
      else if i < 0 \<and> - int (length xs) \<le> i then Inr (xs ! nat (int (length xs) + i))
      else Inl IndexError)"

text \<open>The largest finite double, \<^verbatim>\<open>sys.float_info.max\<close>.\<close>

definition max_double :: real where
  "max_double = (2 ^ 53 - 1) * 2 ^ 971"

subsection \<open>The \<^verbatim>\<open>statistics\<close> module\<close>

text \<open>
  \<^verbatim>\<open>statistics.mean\<close>, \<^verbatim>\<open>statistics.median\<close> and \<^verbatim>\<open>statistics.stdev\<close> of the Python
  standard library, as documented: the arithmetic mean; the middle element of the sorted
  data, or the average of the two middle elements when the size is even; the square root
  of the sample variance (denominator \<open>n - 1\<close>). Each raises \<^verbatim>\<open>StatisticsError\<close> on
  too few data points.
\<close>

definition mean :: "real list \<Rightarrow> error + real" where
  "mean data =
     (if data = [] then Inl StatisticsError
      else Inr (sum_list data / real (length data)))"

definition median :: "real list \<Rightarrow> error + real" where
  "median data =
     (let d = sort data; n = length d
      in if n = 0 then Inl StatisticsError
         else if n mod 2 = 1 then Inr (d ! (n div 2))
         else let i = n div 2 in Inr ((d ! (i - 1) + d ! i) / 2))"

definition stdev :: "real list \<Rightarrow> error + real" where
  "stdev data =
     (let n = length data
      in if n < 2 then Inl StatisticsError
         else let c = sum_list data / real n
              in Inr (sqrt ((\<Sum>x\<leftarrow>data. (x - c)\<^sup>2) / real (n - 1))))"

section \<open>Data model\<close>

text \<open>
  The rows of the tables the services read and write, with the columns they use. A date
  is the number of its day, so that subtracting two dates gives \<^verbatim>\<open>.days\<close>. The
  server-side columns \<^verbatim>\<open>id\<close>, \<^verbatim>\<open>created_at\<close> and \<^verbatim>\<open>updated_at\<close> of the result
  tables are not modelled. \<open>sector\<close>, \<open>industry\<close> and \<open>region\<close> are columns of both
  \<open>Investment\<close> and \<open>PeerBenchmark\<close>, and \<open>investment_id\<close> and \<open>assessment_date\<close> of
  every assessment table, and \<open>sample_size\<close> of both analysis tables; they are written
  with the name of the table, as the source does.
\<close>

record Investment =
  inv_id :: nat
  sector :: "string option"
  industry :: "string option"
  region :: "string option"
  investment_date :: "int option"
  investment_amount :: "real option"
  current_value :: "real option"
  status :: "string option"

record ESGScore =
  investment_id :: nat
  assessment_date :: int
  overall_esg_score :: "real option"

record ClimateRisk =
  investment_id :: nat
  assessment_date :: int
  physical_risk_score :: "real option"
  transition_risk_score :: "real option"
  climate_opportunity_score :: "real option"

record SocialImpact =
  investment_id :: nat
  assessment_date :: int
  overall_impact_score :: "real option"
  beneficiaries_reached :: "int option"

record GHGEmissions =
  investment_id :: nat
  reporting_year :: int
  emissions_intensity_revenue :: "real option"

record CorrelationAnalysis =
  analysis_date :: int
  correlation_matrix :: "(string \<times> real option) list"
  esg_roi_correlation :: "real option"
  climate_risk_roi_correlation :: "real option"
  impact_roi_correlation :: "real option"
  esg_climate_correlation :: "real option"
  sample_size :: nat

record PeerBenchmark =
  sector :: string
  industry :: "string option"
  region :: "string option"
  benchmark_date :: int
  avg_esg_score :: "real option"
  median_esg_score :: "real option"
  percentile_25_esg :: "real option"
  percentile_75_esg :: "real option"
  avg_physical_risk :: "real option"
  avg_transition_risk :: "real option"
  avg_climate_opportunity :: "real option"
  avg_roi :: "real option"
  median_roi :: "real option"
  avg_investment_size :: "real option"
  avg_impact_score :: "real option"
  avg_beneficiaries :: "real option"
  avg_emissions_intensity :: "real option"
  median_emissions_intensity :: "real option"
  sample_size :: nat
  data_source :: string

record MonteCarloSimulation =
  simulation_name :: string
  simulation_date :: int
  num_iterations :: int
  time_horizon_years :: int
  confidence_levels :: "nat list"
  scenario_type :: string
  climate_scenario :: "string option"
  market_volatility :: real
  expected_roi :: real
  roi_std_dev :: real
  roi_percentiles :: "(nat \<times> real) list"
  expected_impact_score :: real
  impact_score_std_dev :: real
  impact_score_percentiles :: "(nat \<times> real) list"
  expected_esg_score :: real
  esg_score_std_dev :: real
  value_at_risk_95 :: real
  value_at_risk_99 :: real
  conditional_var_95 :: real
  probability_positive_roi :: real
  probability_target_impact :: real
  probability_risk_threshold :: real
  sample_roi :: "real list"
  sample_impact :: "real list"
  scenario_baseline :: "real \<times> real"
  created_by :: string

text \<open>
  The database session: one list of rows per table, in insertion order. \<^verbatim>\<open>db.add\<close>
  followed by \<^verbatim>\<open>db.commit\<close> appends a row; a call that raises returns the database
  it was given.
\<close>

record database =
  tbl_investments :: "Investment list"
  tbl_esg_scores :: "ESGScore list"
  tbl_climate_risks :: "ClimateRisk list"
  tbl_social_impacts :: "SocialImpact list"
  tbl_ghg_emissions :: "GHGEmissions list"
  tbl_peer_benchmarks :: "PeerBenchmark list"
  tbl_correlation_analyses :: "CorrelationAnalysis list"
  tbl_monte_carlo_simulations :: "MonteCarloSimulation list"

text \<open>
  \<^verbatim>\<open>db.query(T).filter(T.investment_id == i).order_by(desc(T.date)).first()\<close>: the row
  of the investment with the greatest date, \<^verbatim>\<open>None\<close> when it has no row. SQL leaves the
  choice among rows of the same date open; the model takes the earliest inserted one.
\<close>

definition latest :: "('r \<Rightarrow> nat) \<Rightarrow> ('r \<Rightarrow> int) \<Rightarrow> 'r list \<Rightarrow> nat \<Rightarrow> 'r option" where
  "latest inv_of date_of rows i =
     (case filter (\<lambda>r. inv_of r = i) rows of
        [] \<Rightarrow> None
      | r # rs \<Rightarrow> Some (fold (\<lambda>a b. if date_of b < date_of a then a else b) rs r))"

definition latest_esg :: "database \<Rightarrow> nat \<Rightarrow> ESGScore option" where
  "latest_esg db i =
     latest ESGScore.investment_id ESGScore.assessment_date (tbl_esg_scores db) i"

definition latest_risk :: "database \<Rightarrow> nat \<Rightarrow> ClimateRisk option" where
  "latest_risk db i =
     latest ClimateRisk.investment_id ClimateRisk.assessment_date (tbl_climate_risks db) i"

definition latest_impact :: "database \<Rightarrow> nat \<Rightarrow> SocialImpact option" where
  "latest_impact db i =
     latest SocialImpact.investment_id SocialImpact.assessment_date (tbl_social_impacts db) i"

definition latest_emissions :: "database \<Rightarrow> nat \<Rightarrow> GHGEmissions option" where
  "latest_emissions db i =
     latest GHGEmissions.investment_id GHGEmissions.reporting_year (tbl_ghg_emissions db) i"

text \<open>\<^verbatim>\<open>db.query(Investment).filter(Investment.status == "active").all()\<close>\<close>

definition active_investments :: "database \<Rightarrow> Investment list" where
  "active_investments db = filter (\<lambda>invst. status invst = Some ''active'') (tbl_investments db)"

section \<open>Peer benchmarking\<close>

subsection \<open>Metric extraction\<close>

text \<open>
  \<^verbatim>\<open>if v: xs.append(v)\<close>: the observation is appended when it is truthy, that is,
  neither \<^verbatim>\<open>None\<close> nor zero.
\<close>

definition append_if_truthy :: "real option \<Rightarrow> real list \<Rightarrow> real list" where
  "append_if_truthy v xs = (case v of None \<Rightarrow> xs | Some x \<Rightarrow> if x \<noteq> 0 then xs @ [x] else xs)"

definition append_if_truthy_int :: "int option \<Rightarrow> int list \<Rightarrow> int list" where
  "append_if_truthy_int v xs =
     (case v of None \<Rightarrow> xs | Some x \<Rightarrow> if x \<noteq> 0 then xs @ [x] else xs)"

text \<open>
  \<^verbatim>\<open>row and row.column\<close>: the column of the latest row, \<^verbatim>\<open>None\<close> (falsy) when there
  is no row.
\<close>

definition column :: "'r option \<Rightarrow> ('r \<Rightarrow> 'a option) \<Rightarrow> 'a option" where
  "column row col = (case row of None \<Rightarrow> None | Some r \<Rightarrow> col r)"

text \<open>The metric vectors that \<^verbatim>\<open>calculate_benchmarks\<close> collects.\<close>

record metrics =
  esg_scores :: "real list"
  physical_risks :: "real list"
  transition_risks :: "real list"
  climate_opportunities :: "real list"
  rois :: "real list"
  investment_sizes :: "real list"
  impact_scores :: "real list"
  beneficiaries :: "int list"
  emissions_intensities :: "real list"

definition no_metrics :: metrics where
  "no_metrics =
     \<lparr> esg_scores = [], physical_risks = [], transition_risks = [], climate_opportunities = [],
       rois = [], investment_sizes = [], impact_scores = [], beneficiaries = [],
       emissions_intensities = [] \<rparr>"

text \<open>
  \<^verbatim>\<open>inv.investment_amount and inv.current_value\<close> guards the return on investment
  \<^verbatim>\<open>((current_value - investment_amount) / investment_amount) * 100\<close>.
\<close>

definition roi_of :: "Investment \<Rightarrow> real option" where
  "roi_of invst =
     (if truthy (investment_amount invst) \<and> truthy (current_value invst) then
        Some ((or_zero (current_value invst) - or_zero (investment_amount invst))
              / or_zero (investment_amount invst) * 100)
      else None)"

text \<open>The body of the loop \<^verbatim>\<open>for inv in investments\<close>.\<close>

definition collect_metrics_step :: "database \<Rightarrow> Investment \<Rightarrow> metrics \<Rightarrow> metrics" where
  "collect_metrics_step db invst m =
     (let esg_row = latest_esg db (inv_id invst);
          risk_row = latest_risk db (inv_id invst);
          impact_row = latest_impact db (inv_id invst);
          emissions_row = latest_emissions db (inv_id invst)
      in \<lparr> esg_scores = append_if_truthy (column esg_row overall_esg_score) (esg_scores m),
           physical_risks =
             append_if_truthy (column risk_row physical_risk_score) (physical_risks m),
           transition_risks =
             append_if_truthy (column risk_row transition_risk_score) (transition_risks m),
           climate_opportunities =
             append_if_truthy (column risk_row climate_opportunity_score)
               (climate_opportunities m),
           rois = (case roi_of invst of None \<Rightarrow> rois m | Some roi \<Rightarrow> rois m @ [roi]),
           investment_sizes = append_if_truthy (investment_amount invst) (investment_sizes m),
           impact_scores =
             append_if_truthy (column impact_row overall_impact_score) (impact_scores m),
           beneficiaries =
             append_if_truthy_int (column impact_row beneficiaries_reached) (beneficiaries m),
           emissions_intensities =
             append_if_truthy (column emissions_row emissions_intensity_revenue)
               (emissions_intensities m) \<rparr>)"

definition collect_metrics :: "database \<Rightarrow> Investment list \<Rightarrow> metrics" where
  "collect_metrics db investments = fold (collect_metrics_step db) investments no_metrics"

subsection \<open>Descriptive statistics\<close>

text \<open>
  The local function \<^verbatim>\<open>calc_stats(values)\<close>: mean, median, and the elements of the
  sorted values at \<^verbatim>\<open>int(len * 0.25)\<close> and \<^verbatim>\<open>int(len * 0.75)\<close>; four times \<^verbatim>\<open>None\<close>
  on an empty vector. \<open>element_or_none\<close> is
  \<^verbatim>\<open>sorted_vals[idx] if len(sorted_vals) > 0 else None\<close>.
\<close>

definition element_or_none :: "real list \<Rightarrow> int \<Rightarrow> error + real option" where
  "element_or_none sorted_vals idx =
     (if 0 < length sorted_vals
      then (case py_index sorted_vals idx of Inl e \<Rightarrow> Inl e | Inr v \<Rightarrow> Inr (Some v))
      else Inr None)"

definition calc_stats ::
  "real list \<Rightarrow> error + (real option \<times> real option \<times> real option \<times> real option)" where
  "calc_stats vals =
     (if vals = [] then Inr (None, None, None, None)
      else let sorted_vals = sort vals
        in (case mean vals of Inl e \<Rightarrow> Inl e | Inr avg \<Rightarrow>
           (case median vals of Inl e \<Rightarrow> Inl e | Inr med \<Rightarrow>
           (case element_or_none sorted_vals (py_int (real (length sorted_vals) * 0.25)) of
              Inl e \<Rightarrow> Inl e | Inr p25 \<Rightarrow>
           (case element_or_none sorted_vals (py_int (real (length sorted_vals) * 0.75)) of
              Inl e \<Rightarrow> Inl e | Inr p75 \<Rightarrow>
              Inr (Some avg, Some med, p25, p75))))))"

text \<open>\<^verbatim>\<open>statistics.mean(xs) if xs else None\<close> and the same for the median.\<close>

definition mean_or_none :: "real list \<Rightarrow> error + real option" where
  "mean_or_none xs =
     (if xs = [] then Inr None
      else (case mean xs of Inl e \<Rightarrow> Inl e | Inr v \<Rightarrow> Inr (Some v)))"

definition median_or_none :: "real list \<Rightarrow> error + real option" where
  "median_or_none xs =
     (if xs = [] then Inr None
      else (case median xs of Inl e \<Rightarrow> Inl e | Inr v \<Rightarrow> Inr (Some v)))"

subsection \<open>The benchmark row\<close>

text \<open>
  \<^verbatim>\<open>sector or "All"\<close> and \<^verbatim>\<open>industry or None\<close>: an empty string is falsy.
\<close>

definition or_all :: "string option \<Rightarrow> string" where
  "or_all s = (case s of None \<Rightarrow> ''All'' | Some t \<Rightarrow> if t = [] then ''All'' else t)"

definition or_none :: "string option \<Rightarrow> string option" where
  "or_none s = (case s of None \<Rightarrow> None | Some t \<Rightarrow> if t = [] then None else Some t)"

text \<open>The dictionary \<^verbatim>\<open>benchmark_data\<close>, its entries evaluated in the order of the source.\<close>

definition benchmark_data ::
  "metrics \<Rightarrow> nat \<Rightarrow> int \<Rightarrow> string option \<Rightarrow> string option \<Rightarrow> string option
     \<Rightarrow> error + PeerBenchmark" where
  "benchmark_data m n today sector' industry' region' =
     (case calc_stats (esg_scores m) of Inl e \<Rightarrow> Inl e
      | Inr (avg_esg, median_esg, p25_esg, p75_esg) \<Rightarrow>
     (case mean_or_none (physical_risks m) of Inl e \<Rightarrow> Inl e | Inr a_physical \<Rightarrow>
     (case mean_or_none (transition_risks m) of Inl e \<Rightarrow> Inl e | Inr a_transition \<Rightarrow>
     (case mean_or_none (climate_opportunities m) of Inl e \<Rightarrow> Inl e | Inr a_opportunity \<Rightarrow>
     (case mean_or_none (rois m) of Inl e \<Rightarrow> Inl e | Inr a_roi \<Rightarrow>
     (case median_or_none (rois m) of Inl e \<Rightarrow> Inl e | Inr m_roi \<Rightarrow>
     (case mean_or_none (investment_sizes m) of Inl e \<Rightarrow> Inl e | Inr a_size \<Rightarrow>
     (case mean_or_none (impact_scores m) of Inl e \<Rightarrow> Inl e | Inr a_impact \<Rightarrow>
     (case mean_or_none (map real_of_int (beneficiaries m)) of
        Inl e \<Rightarrow> Inl e | Inr a_beneficiaries \<Rightarrow>
     (case mean_or_none (emissions_intensities m) of Inl e \<Rightarrow> Inl e | Inr a_emissions \<Rightarrow>
     (case median_or_none (emissions_intensities m) of Inl e \<Rightarrow> Inl e | Inr m_emissions \<Rightarrow>
        Inr \<lparr> sector = or_all sector',
              industry = industry',
              region = region',
              benchmark_date = today,
              avg_esg_score = avg_esg,
              median_esg_score = median_esg,
              percentile_25_esg = p25_esg,
              percentile_75_esg = p75_esg,
              avg_physical_risk = a_physical,
              avg_transition_risk = a_transition,
              avg_climate_opportunity = a_opportunity,
              avg_roi = a_roi,
              median_roi = m_roi,
              avg_investment_size = a_size,
              avg_impact_score = a_impact,
              avg_beneficiaries = a_beneficiaries,
              avg_emissions_intensity = a_emissions,
              median_emissions_intensity = m_emissions,
              PeerBenchmark.sample_size = n,
              data_source = ''internal'' \<rparr>
     )))))))))))"

text \<open>
  The query of the investments: each of the three filters is applied only when its
  argument is truthy, and an SQL comparison with a NULL column is not true.
\<close>

definition matches :: "string option \<Rightarrow> string option \<Rightarrow> bool" where
  "matches wanted col = (if truthy_str wanted then col = wanted else True)"

definition matching_investments ::
  "database \<Rightarrow> string option \<Rightarrow> string option \<Rightarrow> string option \<Rightarrow> Investment list" where
  "matching_investments db sector' industry' region' =
     filter (\<lambda>invst. matches sector' (Investment.sector invst)
                    \<and> matches industry' (Investment.industry invst)
                    \<and> matches region' (Investment.region invst))
       (tbl_investments db)"

text \<open>
  The upsert: the first stored benchmark that satisfies \<open>P\<close> is overwritten, and the new
  row is appended when there is none.
\<close>

fun replace_first :: "('a \<Rightarrow> bool) \<Rightarrow> 'a \<Rightarrow> 'a list \<Rightarrow> 'a list" where
  "replace_first P y [] = [y]"
| "replace_first P y (x # xs) = (if P x then y # xs else x # replace_first P y xs)"

text \<open>
  \<^verbatim>\<open>PeerBenchmarkService.calculate_benchmarks\<close>, with the value \<open>today\<close> of
  \<^verbatim>\<open>date.today()\<close>. It returns the outcome and the database after the call.
\<close>

definition calculate_benchmarks ::
  "database \<Rightarrow> int \<Rightarrow> string option \<Rightarrow> string option \<Rightarrow> string option
     \<Rightarrow> (error + PeerBenchmark) \<times> database" where
  "calculate_benchmarks db today sector' industry' region' =
     (let investments = matching_investments db sector' industry' region'
      in if investments = [] then
           (Inl (ValueError ''No investments found for benchmark criteria''), db)
         else
           (case benchmark_data (collect_metrics db investments) (length investments) today
                   sector' industry' region' of
              Inl e \<Rightarrow> (Inl e, db)
            | Inr benchmark \<Rightarrow>
                (Inr benchmark,
                 db\<lparr>tbl_peer_benchmarks :=
                      replace_first
                        (\<lambda>b. PeerBenchmark.sector b = PeerBenchmark.sector benchmark
                             \<and> PeerBenchmark.industry b = or_none industry'
                             \<and> PeerBenchmark.region b = or_none region'
                             \<and> benchmark_date b = today)
                        benchmark (tbl_peer_benchmarks db)\<rparr>)))"

section \<open>Correlation engine\<close>

text \<open>
  The local function \<^verbatim>\<open>calc_correlation(x, y)\<close> of \<^verbatim>\<open>calculate_correlations\<close>. It returns
  \<^verbatim>\<open>None\<close> on vectors of different length, on fewer than two observations and on a zero
  denominator. \<^verbatim>\<open>(...) ** 0.5\<close> is applied to a product of two sums of squares, which is
  never negative, so it is the square root. The two calls of \<^verbatim>\<open>statistics.mean\<close> are
  kept as calls that may raise.
\<close>

definition calc_correlation :: "real list \<Rightarrow> real list \<Rightarrow> error + real option" where
  "calc_correlation x y =
     (if length x \<noteq> length y then Inr None
      else let n = length x
        in if n < 2 then Inr None
           else (case mean x of Inl e \<Rightarrow> Inl e | Inr mean_x \<Rightarrow>
                (case mean y of Inl e \<Rightarrow> Inl e | Inr mean_y \<Rightarrow>
                  let numerator = (\<Sum>i\<leftarrow>[0..<n]. (x ! i - mean_x) * (y ! i - mean_y));
                      denominator =
                        sqrt ((\<Sum>i\<leftarrow>[0..<n]. (x ! i - mean_x)\<^sup>2) *
                              (\<Sum>i\<leftarrow>[0..<n]. (y ! i - mean_y)\<^sup>2))
                  in if denominator = 0 then Inr None
                     else Inr (Some (numerator / denominator)))))"

text \<open>
  The denominator term of one vector as the specification writes it: the sum of the
  squared deviations from the arithmetic mean.
\<close>

definition sq_dev_sum :: "real list \<Rightarrow> real" where
  "sq_dev_sum x =
     (\<Sum>i\<leftarrow>[0..<length x]. (x ! i - sum_list x / real (length x))\<^sup>2)"

subsection \<open>The correlation function on doubles\<close>

text \<open>
  The definition \<open>calc_correlation\<close> above reads the arithmetic of the source as exact.
  The code computes with IEEE 754 doubles: every \<^verbatim>\<open>+\<close>, \<^verbatim>\<open>-\<close>, \<^verbatim>\<open>*\<close> and \<^verbatim>\<open>/\<close> rounds its
  exact result to the nearest double and overflows to an infinity. \<open>calc_correlation_double\<close>
  is the same function with these operations.

  Two parts of it are fixed by the platform and not by the source. The power \<^verbatim>\<open>**\<close> is
  the \<^verbatim>\<open>pow\<close> of the C library, which may be off by a unit in the last place; it is
  taken here as correctly rounded, so the model is exact about the code where the exact
  power is a double or overflows, and may differ from it in the last bit elsewhere (for
  instance, the C library can return for \<^verbatim>\<open>d ** 2\<close> a neighbour of the rounded \<^verbatim>\<open>d * d\<close>,
  and the self-correlation of an ordinary score vector then comes out one unit in the
  last place off 1.0). From Python 3.12 on \<^verbatim>\<open>sum\<close> carries a compensation term, which is
  zero where every partial sum is exact. The statements below about
  \<open>calc_correlation_double\<close> are on inputs where every power and every partial sum is
  exact or overflows.
\<close>

text \<open>
  A double: a finite value, one of the two infinities, or a NaN. The two zeros are not
  told apart.
\<close>

datatype double = Finite real | PlusInf | MinusInf | NotANumber

text \<open>
  Rounding to the nearest double, ties to the even significand: the significand has 53
  bits, and below \<open>2 powi (- 1022)\<close> the doubles are the multiples of
  \<open>2 powi (- 1074)\<close>. A result whose rounding exceeds \<open>max_double\<close> is an infinity.
\<close>

definition round_half_even :: "real \<Rightarrow> int" where
  "round_half_even y =
     (let f = \<lfloor>y\<rfloor>; r = y - of_int f
      in if r < 1 / 2 then f else if 1 / 2 < r then f + 1 else if even f then f else f + 1)"

definition ulp_exponent :: "real \<Rightarrow> int" where
  "ulp_exponent x = max \<lfloor>log 2 \<bar>x\<bar>\<rfloor> (- 1022) - 52"

definition round_nearest :: "real \<Rightarrow> real" where
  "round_nearest x =
     (if x = 0 then 0
      else of_int (round_half_even (x / 2 powi ulp_exponent x)) * 2 powi ulp_exponent x)"

definition to_double :: "real \<Rightarrow> double" where
  "to_double x =
     (let r = round_nearest x
      in if max_double < r then PlusInf else if r < - max_double then MinusInf else Finite r)"

text \<open>
  Negation, \<^verbatim>\<open>+\<close>, \<^verbatim>\<open>-\<close>, \<^verbatim>\<open>*\<close> and \<^verbatim>\<open>/\<close> on floats; only the division raises, on a
  zero divisor.
\<close>

definition signed_inf :: "bool \<Rightarrow> double" where
  "signed_inf negative = (if negative then MinusInf else PlusInf)"

fun dneg :: "double \<Rightarrow> double" where
  "dneg (Finite a) = Finite (- a)"
| "dneg PlusInf = MinusInf"
| "dneg MinusInf = PlusInf"
| "dneg NotANumber = NotANumber"

fun dadd :: "double \<Rightarrow> double \<Rightarrow> double" where
  "dadd (Finite a) (Finite b) = to_double (a + b)"
| "dadd NotANumber _ = NotANumber"
| "dadd _ NotANumber = NotANumber"
| "dadd PlusInf MinusInf = NotANumber"
| "dadd MinusInf PlusInf = NotANumber"
| "dadd PlusInf _ = PlusInf"
| "dadd _ PlusInf = PlusInf"
| "dadd MinusInf _ = MinusInf"
| "dadd _ MinusInf = MinusInf"

definition dsub :: "double \<Rightarrow> double \<Rightarrow> double" where
  "dsub a b = dadd a (dneg b)"

fun dmul :: "double \<Rightarrow> double \<Rightarrow> double" where
  "dmul (Finite a) (Finite b) = to_double (a * b)"
| "dmul NotANumber _ = NotANumber"
| "dmul _ NotANumber = NotANumber"
| "dmul (Finite a) PlusInf = (if a = 0 then NotANumber else signed_inf (a < 0))"
| "dmul (Finite a) MinusInf = (if a = 0 then NotANumber else signed_inf (0 < a))"
| "dmul PlusInf (Finite b) = (if b = 0 then NotANumber else signed_inf (b < 0))"
| "dmul MinusInf (Finite b) = (if b = 0 then NotANumber else signed_inf (0 < b))"
| "dmul PlusInf PlusInf = PlusInf"
| "dmul MinusInf MinusInf = PlusInf"
| "dmul PlusInf MinusInf = MinusInf"
| "dmul MinusInf PlusInf = MinusInf"

fun ddiv :: "double \<Rightarrow> double \<Rightarrow> error + double" where
  "ddiv (Finite a) (Finite b) =
     (if b = 0 then Inl ZeroDivisionError else Inr (to_double (a / b)))"
| "ddiv PlusInf (Finite b) =
     (if b = 0 then Inl ZeroDivisionError else Inr (signed_inf (b < 0)))"
| "ddiv MinusInf (Finite b) =
     (if b = 0 then Inl ZeroDivisionError else Inr (signed_inf (0 < b)))"
| "ddiv NotANumber (Finite b) =
     (if b = 0 then Inl ZeroDivisionError else Inr NotANumber)"
| "ddiv _ NotANumber = Inr NotANumber"
| "ddiv (Finite a) _ = Inr (Finite 0)"
| "ddiv _ _ = Inr NotANumber"

text \<open>
  \<^verbatim>\<open>d ** 2\<close> and \<^verbatim>\<open>p ** 0.5\<close>. The power raises \<^verbatim>\<open>OverflowError\<close> when a finite base
  gives a result beyond the doubles. The base of \<^verbatim>\<open>** 0.5\<close> is a product of two sums of
  squares; a negative finite base, for which Python returns a complex number, does not
  occur, and \<open>droot\<close> gives a NaN there.
\<close>

fun dsquare :: "double \<Rightarrow> error + double" where
  "dsquare (Finite a) =
     (if max_double < round_nearest (a * a) then Inl OverflowError
      else Inr (Finite (round_nearest (a * a))))"
| "dsquare NotANumber = Inr NotANumber"
| "dsquare _ = Inr PlusInf"

fun droot :: "double \<Rightarrow> double" where
  "droot (Finite a) = (if 0 \<le> a then Finite (round_nearest (sqrt a)) else NotANumber)"
| "droot NotANumber = NotANumber"
| "droot _ = PlusInf"

text \<open>
  \<^verbatim>\<open>sum\<close> starts from the integer 0 and adds from left to right.
  \<^verbatim>\<open>statistics.mean\<close> adds finite data exactly and rounds the quotient once; when a
  data point is not finite, the result is the float sum of those data points.
\<close>

fun is_finite :: "double \<Rightarrow> bool" where
  "is_finite (Finite a) = True"
| "is_finite _ = False"

fun finite_value :: "double \<Rightarrow> real" where
  "finite_value (Finite a) = a"
| "finite_value _ = 0"

definition sum_double :: "double list \<Rightarrow> double" where
  "sum_double ts = fold (\<lambda>t s. dadd s t) ts (Finite 0)"

definition mean_double :: "double list \<Rightarrow> error + double" where
  "mean_double data =
     (if data = [] then Inl StatisticsError
      else if list_all is_finite data
      then Inr (to_double (sum_list (map finite_value data) / real (length data)))
      else Inr (sum_double (filter (\<lambda>d. \<not> is_finite d) data)))"

text \<open>
  \<^verbatim>\<open>sum((x[i] - mean_x) ** 2 for i in range(n))\<close>, which stops at the first power that
  raises, and \<^verbatim>\<open>calc_correlation\<close> with every operation on doubles.
\<close>

fun sum_squares :: "double list \<Rightarrow> double \<Rightarrow> double \<Rightarrow> error + double" where
  "sum_squares [] mean_x s = Inr s"
| "sum_squares (xi # xs) mean_x s =
     (case dsquare (dsub xi mean_x) of
        Inl e \<Rightarrow> Inl e
      | Inr t \<Rightarrow> sum_squares xs mean_x (dadd s t))"

definition calc_correlation_double :: "double list \<Rightarrow> double list \<Rightarrow> error + double option" where
  "calc_correlation_double x y =
     (if length x \<noteq> length y then Inr None
      else let n = length x
        in if n < 2 then Inr None
           else (case mean_double x of Inl e \<Rightarrow> Inl e | Inr mean_x \<Rightarrow>
                (case mean_double y of Inl e \<Rightarrow> Inl e | Inr mean_y \<Rightarrow>
                  (let numerator =
                         sum_double
                           (map (\<lambda>i. dmul (dsub (x ! i) mean_x) (dsub (y ! i) mean_y)) [0..<n])
                   in (case sum_squares x mean_x (Finite 0) of Inl e \<Rightarrow> Inl e | Inr sx \<Rightarrow>
                      (case sum_squares y mean_y (Finite 0) of Inl e \<Rightarrow> Inl e | Inr sy \<Rightarrow>
                        (let denominator = droot (dmul sx sy)
                         in if denominator = Finite 0 then Inr None
                            else (case ddiv numerator denominator of
                                    Inl e \<Rightarrow> Inl e
                                  | Inr r \<Rightarrow> Inr (Some r)))))))))"

subsection \<open>Data points\<close>

text \<open>
  One data point per holding that has an ESG row, a climate-risk row and a social-impact
  row with non-null ESG and impact scores. Its return is 0 when an amount is missing or
  zero, and a null risk score counts as 0 in \<^verbatim>\<open>max(physical or 0, transition or 0)\<close>.
\<close>

record data_point =
  esg :: real
  risk :: real
  impact :: real
  roi :: real

definition data_point_of :: "database \<Rightarrow> Investment \<Rightarrow> data_point option" where
  "data_point_of db invst =
     (let roi' = (case roi_of invst of None \<Rightarrow> 0 | Some r \<Rightarrow> r);
          esg' = column (latest_esg db (inv_id invst)) overall_esg_score;
          max_risk =
            (case latest_risk db (inv_id invst) of
               None \<Rightarrow> None
             | Some r \<Rightarrow>
                 Some (max (or_zero (physical_risk_score r)) (or_zero (transition_risk_score r))));
          impact' = column (latest_impact db (inv_id invst)) overall_impact_score
      in (case esg' of None \<Rightarrow> None | Some e \<Rightarrow>
         (case max_risk of None \<Rightarrow> None | Some r \<Rightarrow>
         (case impact' of None \<Rightarrow> None | Some i \<Rightarrow>
            Some \<lparr> esg = e, risk = r, impact = i, roi = roi' \<rparr>))))"

definition collect_data_points :: "database \<Rightarrow> Investment list \<Rightarrow> data_point list" where
  "collect_data_points db investments = List.map_filter (data_point_of db) investments"

subsection \<open>The analysis\<close>

text \<open>
  \<^verbatim>\<open>CorrelationAnalysisService.calculate_correlations\<close>, with the value \<open>today\<close> of
  \<^verbatim>\<open>date.today()\<close>: the six named pairs and the stored analysis. The insight sentences
  and the recommendation text, which format the coefficients for a reader, are left out.
\<close>

definition correlations :: "data_point list \<Rightarrow> int \<Rightarrow> error + CorrelationAnalysis" where
  "correlations data_points today =
     (let esg_values = map esg data_points;
          risk_values = map risk data_points;
          impact_values = map impact data_points;
          roi_values = map roi data_points
      in (case calc_correlation esg_values roi_values of Inl e \<Rightarrow> Inl e | Inr esg_roi \<Rightarrow>
         (case calc_correlation risk_values roi_values of Inl e \<Rightarrow> Inl e | Inr risk_roi \<Rightarrow>
         (case calc_correlation impact_values roi_values of Inl e \<Rightarrow> Inl e | Inr impact_roi \<Rightarrow>
         (case calc_correlation esg_values risk_values of Inl e \<Rightarrow> Inl e | Inr esg_climate \<Rightarrow>
         (case calc_correlation esg_values impact_values of Inl e \<Rightarrow> Inl e | Inr esg_impact \<Rightarrow>
         (case calc_correlation risk_values impact_values of
            Inl e \<Rightarrow> Inl e | Inr risk_impact \<Rightarrow>
            Inr \<lparr> analysis_date = today,
                  correlation_matrix =
                    [(''esg_roi'', esg_roi), (''climate_risk_roi'', risk_roi),
                     (''impact_roi'', impact_roi), (''esg_climate_risk'', esg_climate),
                     (''esg_impact'', esg_impact), (''climate_risk_impact'', risk_impact)],
                  esg_roi_correlation = esg_roi,
                  climate_risk_roi_correlation = risk_roi,
                  impact_roi_correlation = impact_roi,
                  esg_climate_correlation = esg_climate,
                  CorrelationAnalysis.sample_size = length data_points \<rparr>)))))))"

definition calculate_correlations ::
  "database \<Rightarrow> int \<Rightarrow> (error + CorrelationAnalysis) \<times> database" where
  "calculate_correlations db today =
     (let investments = active_investments db
      in if length investments < 3 then
           (Inl (ValueError ''Need at least 3 investments for correlation analysis''), db)
         else
           (let data_points = collect_data_points db investments
            in if length data_points < 3 then
                 (Inl (ValueError ''Insufficient data for correlation analysis''), db)
               else
                 (case correlations data_points today of
                    Inl e \<Rightarrow> (Inl e, db)
                  | Inr analysis \<Rightarrow>
                      (Inr analysis,
                       db\<lparr>tbl_correlation_analyses :=
                            tbl_correlation_analyses db @ [analysis]\<rparr>))))"

section \<open>Monte Carlo simulator\<close>

subsection \<open>Numbers that may have left the floats\<close>

text \<open>
  \<^verbatim>\<open>x ** y\<close> on floats returns a complex number when \<open>x\<close> is negative and \<open>y\<close> is not
  integral. The annualised return is computed by such a power, so it is a \<open>pyfloat\<close>:
  either a float or some complex number, whose value no later step looks at. Arithmetic
  with a complex operand gives a complex result.
\<close>

datatype pyfloat = Flt real | Cplx

fun flt_add :: "pyfloat \<Rightarrow> pyfloat \<Rightarrow> pyfloat" where
  "flt_add (Flt a) (Flt b) = Flt (a + b)"
| "flt_add _ _ = Cplx"

fun flt_sub :: "pyfloat \<Rightarrow> pyfloat \<Rightarrow> pyfloat" where
  "flt_sub (Flt a) (Flt b) = Flt (a - b)"
| "flt_sub _ _ = Cplx"

fun flt_mul :: "pyfloat \<Rightarrow> pyfloat \<Rightarrow> pyfloat" where
  "flt_mul (Flt a) (Flt b) = Flt (a * b)"
| "flt_mul _ _ = Cplx"

text \<open>
  \<^verbatim>\<open>b ** e\<close> for a positive exponent \<open>e\<close>, the only case the simulator reaches (the
  exponent is \<^verbatim>\<open>1 / years_held\<close> under the guard \<^verbatim>\<open>years_held > 0\<close>). Unlike the other
  float operations, which return an infinity, the power raises \<^verbatim>\<open>OverflowError\<close> when
  its result is too large for a double; this holds for the complex power of a negative
  base as well. The value of a power that does not overflow is the exact one.
\<close>

definition py_pow :: "real \<Rightarrow> real \<Rightarrow> error + pyfloat" where
  "py_pow b e =
     (if b = 0 then Inr (Flt 0)
      else if max_double < \<bar>b\<bar> powr e then Inl OverflowError
      else if 0 < b then Inr (Flt (b powr e))
      else if e = of_int \<lfloor>e\<rfloor> then Inr (Flt (b powi \<lfloor>e\<rfloor>))
      else Inr Cplx)"

text \<open>
  The first consumer of a result series is \<^verbatim>\<open>statistics.mean\<close>, which raises
  \<^verbatim>\<open>TypeError\<close> on a complex data point. \<open>as_floats\<close> is that check; an empty series
  passes it, and then \<open>mean\<close> raises \<^verbatim>\<open>StatisticsError\<close>.
\<close>

fun as_floats :: "pyfloat list \<Rightarrow> error + real list" where
  "as_floats [] = Inr []"
| "as_floats (Cplx # _) = Inl TypeError"
| "as_floats (Flt a # xs) =
     (case as_floats xs of Inl e \<Rightarrow> Inl e | Inr ys \<Rightarrow> Inr (a # ys))"

subsection \<open>Randomness\<close>

text \<open>
  \<^verbatim>\<open>random.gauss(mu, sigma)\<close> draws a standard normal deviate \<open>z\<close> from the process-wide
  generator and returns \<^verbatim>\<open>mu + z * sigma\<close>. The generator is a stream \<open>z\<close> of deviates
  and the number \<open>k\<close> of deviates already drawn.
\<close>

definition gauss :: "real \<Rightarrow> real \<Rightarrow> real \<Rightarrow> real" where
  "gauss mu sigma z = mu + z * sigma"

subsection \<open>Per-holding inputs\<close>

record inv_data =
  weight :: real
  annual_roi :: pyfloat
  impact :: "real option"
  esg :: "real option"

text \<open>\<^verbatim>\<open>inv.current_value or inv.investment_amount or 0\<close>\<close>

definition holding_value :: "Investment \<Rightarrow> real" where
  "holding_value invst = or_zero (py_or (current_value invst) (investment_amount invst))"

text \<open>
  The historical return of one holding: annualised from the amounts when the date and
  both amounts are present and non-zero, 0 when the holding is not older than today, and
  the default assumption 8.0 otherwise. The power is the one statement of the collection
  loop that can raise.
\<close>

definition annual_roi_of :: "int \<Rightarrow> Investment \<Rightarrow> error + pyfloat" where
  "annual_roi_of today invst =
     (case investment_date invst of
        Some d \<Rightarrow>
          if truthy (investment_amount invst) \<and> truthy (current_value invst) then
            let years_held = real_of_int (today - d) / 365.25
            in if 0 < years_held then
                 (case py_pow (or_zero (current_value invst) / or_zero (investment_amount invst))
                         (1 / years_held) of
                    Inl e \<Rightarrow> Inl e
                  | Inr p \<Rightarrow> Inr (flt_mul (flt_sub p (Flt 1)) (Flt 100)))
               else Inr (Flt 0)
          else Inr (Flt 8.0)
      | None \<Rightarrow> Inr (Flt 8.0))"

text \<open>
  The dictionary appended for one holding, given its annualised return \<open>a\<close>, and the
  loop \<^verbatim>\<open>for inv in investments\<close> that builds \<^verbatim>\<open>investment_data\<close>; it stops at the
  first holding whose return raises.
\<close>

definition investment_data_of :: "database \<Rightarrow> real \<Rightarrow> Investment \<Rightarrow> pyfloat \<Rightarrow> inv_data" where
  "investment_data_of db portfolio_value invst a =
     \<lparr> weight = (if 0 < portfolio_value then holding_value invst / portfolio_value else 0),
       annual_roi = a,
       impact = (case latest_impact db (inv_id invst) of
                   Some r \<Rightarrow> overall_impact_score r | None \<Rightarrow> Some 5.0),
       esg = (case latest_esg db (inv_id invst) of
                Some r \<Rightarrow> overall_esg_score r | None \<Rightarrow> Some 50.0) \<rparr>"

fun collect_loop ::
  "database \<Rightarrow> int \<Rightarrow> real \<Rightarrow> Investment list \<Rightarrow> error + inv_data list" where
  "collect_loop db today portfolio_value [] = Inr []"
| "collect_loop db today portfolio_value (invst # rest) =
     (case annual_roi_of today invst of
        Inl e \<Rightarrow> Inl e
      | Inr a \<Rightarrow>
          (case collect_loop db today portfolio_value rest of
             Inl e \<Rightarrow> Inl e
           | Inr ds \<Rightarrow> Inr (investment_data_of db portfolio_value invst a # ds)))"

definition collect_investment_data ::
  "database \<Rightarrow> int \<Rightarrow> Investment list \<Rightarrow> error + inv_data list" where
  "collect_investment_data db today investments =
     collect_loop db today (sum_list (map holding_value investments)) investments"

subsection \<open>The iterations\<close>

text \<open>
  The inner loop over the holdings of one iteration. The accumulators are
  \<^verbatim>\<open>portfolio_roi\<close>, \<^verbatim>\<open>portfolio_impact\<close> and \<^verbatim>\<open>portfolio_esg\<close>; multiplying a \<^verbatim>\<open>None\<close>
  impact or ESG score by the weight raises \<^verbatim>\<open>TypeError\<close>.
\<close>

fun holdings_loop ::
  "inv_data list \<Rightarrow> real \<Rightarrow> (nat \<Rightarrow> real) \<Rightarrow> nat \<Rightarrow> pyfloat \<times> real \<times> real
     \<Rightarrow> error + ((pyfloat \<times> real \<times> real) \<times> nat)" where
  "holdings_loop [] mv z k acc = Inr (acc, k)"
| "holdings_loop (d # ds) mv z k (portfolio_roi, portfolio_impact, portfolio_esg) =
     (let roi_variation = gauss 0 (mv * 100) (z k);
          simulated_roi = flt_add (annual_roi d) (Flt roi_variation);
          portfolio_roi' = flt_add portfolio_roi (flt_mul simulated_roi (Flt (weight d)))
      in case impact d of
           None \<Rightarrow> Inl TypeError
         | Some i \<Rightarrow>
             (case esg d of
                None \<Rightarrow> Inl TypeError
              | Some e \<Rightarrow>
                  holdings_loop ds mv z (Suc k)
                    (portfolio_roi', portfolio_impact + i * weight d,
                     portfolio_esg + e * weight d)))"

text \<open>
  The outer loop \<^verbatim>\<open>for _ in range(num_iterations)\<close>, by the number of iterations left.
  The result lists are \<^verbatim>\<open>roi_results\<close>, \<^verbatim>\<open>impact_results\<close> and \<^verbatim>\<open>esg_results\<close>.
\<close>

fun iterations_loop ::
  "nat \<Rightarrow> inv_data list \<Rightarrow> real \<Rightarrow> int \<Rightarrow> (nat \<Rightarrow> real) \<Rightarrow> nat
     \<Rightarrow> pyfloat list \<times> real list \<times> real list
     \<Rightarrow> error + (pyfloat list \<times> real list \<times> real list)" where
  "iterations_loop 0 ds mv h z k acc = Inr acc"
| "iterations_loop (Suc m) ds mv h z k (roi_results, impact_results, esg_results) =
     (case holdings_loop ds mv z k (Flt 0, 0, 0) of
        Inl e \<Rightarrow> Inl e
      | Inr ((portfolio_roi, portfolio_impact, portfolio_esg), k') \<Rightarrow>
          (let final_roi = flt_mul portfolio_roi (Flt (real_of_int h))
           in iterations_loop m ds mv h z k'
                (roi_results @ [final_roi], impact_results @ [portfolio_impact],
                 esg_results @ [portfolio_esg])))"

text \<open>\<^verbatim>\<open>range(n)\<close> is empty for a negative \<open>n\<close>.\<close>

definition run_iterations ::
  "inv_data list \<Rightarrow> int \<Rightarrow> int \<Rightarrow> real \<Rightarrow> (nat \<Rightarrow> real)
     \<Rightarrow> error + (pyfloat list \<times> real list \<times> real list)" where
  "run_iterations investment_data n h mv z =
     iterations_loop (nat n) investment_data mv h z 0 ([], [], [])"

subsection \<open>Statistics of the result series\<close>

fun calc_percentiles_loop ::
  "real list \<Rightarrow> nat list \<Rightarrow> (nat \<times> real) list \<Rightarrow> error + (nat \<times> real) list" where
  "calc_percentiles_loop sorted_vals [] result = Inr result"
| "calc_percentiles_loop sorted_vals (p # ps) result =
     (let idx = py_int (real (length sorted_vals * p) / 100)
      in case py_index sorted_vals (min idx (int (length sorted_vals) - 1)) of
           Inl e \<Rightarrow> Inl e
         | Inr v \<Rightarrow> calc_percentiles_loop sorted_vals ps (AList.update p v result))"

text \<open>
  The local function \<^verbatim>\<open>calc_percentiles(values, percentiles)\<close>; the dictionary it
  returns is an association list in insertion order.
\<close>

definition calc_percentiles :: "real list \<Rightarrow> nat list \<Rightarrow> error + (nat \<times> real) list" where
  "calc_percentiles vals percentiles = calc_percentiles_loop (sort vals) percentiles []"

definition default_percentiles :: "nat list" where
  "default_percentiles = [5, 10, 25, 50, 75, 90, 95]"

text \<open>\<^verbatim>\<open>statistics.stdev(xs) if len(xs) > 1 else 0\<close>\<close>

definition stdev_or_zero :: "real list \<Rightarrow> error + real" where
  "stdev_or_zero xs = (if 1 < length xs then stdev xs else Inr 0)"

text \<open>\<^verbatim>\<open>sorted_roi[idx] if idx < len(sorted_roi) else sorted_roi[0]\<close>\<close>

definition value_at_index :: "real list \<Rightarrow> int \<Rightarrow> error + real" where
  "value_at_index sorted_roi idx =
     (if idx < int (length sorted_roi) then py_index sorted_roi idx
      else py_index sorted_roi 0)"

text \<open>
  \<^verbatim>\<open>sorted_roi[:idx]\<close> for a non-negative \<open>idx\<close>, and the conditional value at risk
  \<^verbatim>\<open>statistics.mean(sorted_roi[:var_95_idx]) if var_95_idx > 0 else value_at_risk_95\<close>.
\<close>

definition cvar :: "real list \<Rightarrow> int \<Rightarrow> real \<Rightarrow> error + real" where
  "cvar sorted_roi var_95_idx var_95 =
     (if 0 < var_95_idx then mean (take (nat var_95_idx) sorted_roi)
      else Inr var_95)"

text \<open>
  \<^verbatim>\<open>sum(1 for r in xs if P(r)) / len(xs) * 100\<close>; the division raises
  \<^verbatim>\<open>ZeroDivisionError\<close> on an empty list.
\<close>

definition probability :: "(real \<Rightarrow> bool) \<Rightarrow> real list \<Rightarrow> error + real" where
  "probability P xs =
     (if length xs = 0 then Inl ZeroDivisionError
      else Inr (real (length (filter P xs)) / real (length xs) * 100))"

subsection \<open>The simulation record\<close>

text \<open>
  The statistics block of \<^verbatim>\<open>run_simulation\<close> and the dictionary \<^verbatim>\<open>simulation_data\<close>
  built from it, in the order of the source, so that the first statement that raises
  decides the error. \<^verbatim>\<open>iteration_results\<close> is the pair of fields \<open>sample_roi\<close> and
  \<open>sample_impact\<close>, \<^verbatim>\<open>scenario_analysis\<close> is \<open>scenario_baseline\<close>; the free-text
  \<^verbatim>\<open>notes\<close> are left out.
\<close>

definition simulation_data ::
  "string \<Rightarrow> int \<Rightarrow> int \<Rightarrow> int \<Rightarrow> string \<Rightarrow> string option \<Rightarrow> real \<Rightarrow> string option
     \<Rightarrow> pyfloat list \<times> real list \<times> real list \<Rightarrow> error + MonteCarloSimulation" where
  "simulation_data name today n h scenario climate mv creator results =
     (case results of (roi_series, impact_results, esg_results) \<Rightarrow>
      (case as_floats roi_series of Inl e \<Rightarrow> Inl e | Inr roi_results \<Rightarrow>
      (case mean roi_results of Inl e \<Rightarrow> Inl e | Inr expected_roi' \<Rightarrow>
      (case stdev_or_zero roi_results of Inl e \<Rightarrow> Inl e | Inr roi_std_dev' \<Rightarrow>
      (case calc_percentiles roi_results default_percentiles of
         Inl e \<Rightarrow> Inl e | Inr roi_percentiles' \<Rightarrow>
      (case mean impact_results of Inl e \<Rightarrow> Inl e | Inr expected_impact \<Rightarrow>
      (case stdev_or_zero impact_results of Inl e \<Rightarrow> Inl e | Inr impact_std_dev \<Rightarrow>
      (case calc_percentiles impact_results default_percentiles of
         Inl e \<Rightarrow> Inl e | Inr impact_percentiles \<Rightarrow>
      (case mean esg_results of Inl e \<Rightarrow> Inl e | Inr expected_esg \<Rightarrow>
      (case stdev_or_zero esg_results of Inl e \<Rightarrow> Inl e | Inr esg_std_dev \<Rightarrow>
      (let sorted_roi = sort roi_results;
           var_95_idx = py_int (real (length sorted_roi) * 0.05);
           var_99_idx = py_int (real (length sorted_roi) * 0.01)
       in
      (case value_at_index sorted_roi var_95_idx of Inl e \<Rightarrow> Inl e | Inr var_95 \<Rightarrow>
      (case value_at_index sorted_roi var_99_idx of Inl e \<Rightarrow> Inl e | Inr var_99 \<Rightarrow>
      (case cvar sorted_roi var_95_idx var_95 of Inl e \<Rightarrow> Inl e | Inr cvar_95 \<Rightarrow>
      (case probability (\<lambda>r. 0 < r) roi_results of Inl e \<Rightarrow> Inl e | Inr p_positive \<Rightarrow>
      (case probability (\<lambda>i. 7.0 \<le> i) impact_results of Inl e \<Rightarrow> Inl e | Inr p_target \<Rightarrow>
      (case probability (\<lambda>r. r < - 10) roi_results of Inl e \<Rightarrow> Inl e | Inr p_risk \<Rightarrow>
         Inr \<lparr> simulation_name = name,
               simulation_date = today,
               num_iterations = n,
               time_horizon_years = h,
               confidence_levels = [90, 95, 99],
               scenario_type = scenario,
               climate_scenario = climate,
               market_volatility = mv,
               expected_roi = expected_roi',
               roi_std_dev = roi_std_dev',
               roi_percentiles = roi_percentiles',
               expected_impact_score = expected_impact,
               impact_score_std_dev = impact_std_dev,
               impact_score_percentiles = impact_percentiles,
               expected_esg_score = expected_esg,
               esg_score_std_dev = esg_std_dev,
               value_at_risk_95 = var_95,
               value_at_risk_99 = var_99,
               conditional_var_95 = cvar_95,
               probability_positive_roi = p_positive,
               probability_target_impact = p_target,
               probability_risk_threshold = p_risk,
               sample_roi = take 100 roi_results,
               sample_impact = take 100 impact_results,
               scenario_baseline = (expected_roi', expected_impact),
               created_by = (case creator of
                               None \<Rightarrow> ''System''
                             | Some c \<Rightarrow> if c = [] then ''System'' else c) \<rparr>
      )))))))))))))))))"

text \<open>The two loops followed by the statistics, on given per-holding inputs.\<close>

definition simulate ::
  "inv_data list \<Rightarrow> string \<Rightarrow> int \<Rightarrow> int \<Rightarrow> int \<Rightarrow> string \<Rightarrow> string option \<Rightarrow> real
     \<Rightarrow> string option \<Rightarrow> (nat \<Rightarrow> real) \<Rightarrow> error + MonteCarloSimulation" where
  "simulate investment_data name today n h scenario climate mv creator z =
     (case run_iterations investment_data n h mv z of
        Inl e \<Rightarrow> Inl e
      | Inr results \<Rightarrow> simulation_data name today n h scenario climate mv creator results)"

text \<open>
  \<^verbatim>\<open>MonteCarloSimulationService.run_simulation\<close>. Besides the source's parameters it
  takes the value \<open>today\<close> of \<^verbatim>\<open>date.today()\<close> and the stream \<open>z\<close> of the random
  generator. It returns the outcome together with the database after the call: the
  simulation row is appended only when no statement has raised.
\<close>

definition run_simulation ::
  "database \<Rightarrow> int \<Rightarrow> (nat \<Rightarrow> real) \<Rightarrow> string \<Rightarrow> int \<Rightarrow> int \<Rightarrow> string \<Rightarrow> string option
     \<Rightarrow> real \<Rightarrow> string option \<Rightarrow> (error + MonteCarloSimulation) \<times> database" where
  "run_simulation db today z name n h scenario climate mv creator =
     (let investments = active_investments db
      in if investments = [] then
           (Inl (ValueError ''No active investments for simulation''), db)
         else
           (case collect_investment_data db today investments of
              Inl e \<Rightarrow> (Inl e, db)
            | Inr investment_data \<Rightarrow>
                (case simulate investment_data name today n h scenario climate mv creator z of
                   Inl e \<Rightarrow> (Inl e, db)
                 | Inr simulation \<Rightarrow>
                     (Inr simulation,
                      db\<lparr>tbl_monte_carlo_simulations :=
                           tbl_monte_carlo_simulations db @ [simulation]\<rparr>))))"

section \<open>Notions used to state the properties\<close>

text \<open>
  The weight-sum of a per-holding score over the portfolio (the source accumulates the
  same products from left to right).
\<close>

definition weight_sum :: "(inv_data \<Rightarrow> real option) \<Rightarrow> inv_data list \<Rightarrow> real" where
  "weight_sum f ds = (\<Sum>d\<leftarrow>ds. or_zero (f d) * weight d)"

text \<open>
  Reading an observation of exactly zero as a missing one, on every column that
  \<^verbatim>\<open>calculate_benchmarks\<close> tests for truthiness.
\<close>

definition zero_as_missing :: "real option \<Rightarrow> real option" where
  "zero_as_missing v = (if truthy v then v else None)"

definition zero_as_missing_int :: "int option \<Rightarrow> int option" where
  "zero_as_missing_int v = (if truthy_int v then v else None)"

definition esg_without_zeros :: "ESGScore \<Rightarrow> ESGScore" where
  "esg_without_zeros r = r\<lparr>overall_esg_score := zero_as_missing (overall_esg_score r)\<rparr>"

definition risk_without_zeros :: "ClimateRisk \<Rightarrow> ClimateRisk" where
  "risk_without_zeros r =
     r\<lparr>physical_risk_score := zero_as_missing (physical_risk_score r),
       transition_risk_score := zero_as_missing (transition_risk_score r),
       climate_opportunity_score := zero_as_missing (climate_opportunity_score r)\<rparr>"

definition impact_without_zeros :: "SocialImpact \<Rightarrow> SocialImpact" where
  "impact_without_zeros r =
     r\<lparr>overall_impact_score := zero_as_missing (overall_impact_score r),
       beneficiaries_reached := zero_as_missing_int (beneficiaries_reached r)\<rparr>"

definition emissions_without_zeros :: "GHGEmissions \<Rightarrow> GHGEmissions" where
  "emissions_without_zeros r =
     r\<lparr>emissions_intensity_revenue := zero_as_missing (emissions_intensity_revenue r)\<rparr>"

definition investment_without_zeros :: "Investment \<Rightarrow> Investment" where
  "investment_without_zeros invst =
     invst\<lparr>investment_amount := zero_as_missing (investment_amount invst),
           current_value := zero_as_missing (current_value invst)\<rparr>"

definition zeros_as_missing :: "database \<Rightarrow> database" where
  "zeros_as_missing db =
     db\<lparr>tbl_investments := map investment_without_zeros (tbl_investments db),
        tbl_esg_scores := map esg_without_zeros (tbl_esg_scores db),
        tbl_climate_risks := map risk_without_zeros (tbl_climate_risks db),
        tbl_social_impacts := map impact_without_zeros (tbl_social_impacts db),
        tbl_ghg_emissions := map emissions_without_zeros (tbl_ghg_emissions db)\<rparr>"

text \<open>
  None of the vectors that \<^verbatim>\<open>calculate_benchmarks\<close> fills under a truthiness test
  contains a 0. (The returns are computed, and a holding worth what was paid for it has
  the return 0.)
\<close>

definition zero_free :: "metrics \<Rightarrow> bool" where
  "zero_free m \<longleftrightarrow>
     0 \<notin> set (esg_scores m) \<and> 0 \<notin> set (physical_risks m) \<and> 0 \<notin> set (transition_risks m)
     \<and> 0 \<notin> set (climate_opportunities m) \<and> 0 \<notin> set (investment_sizes m)
     \<and> 0 \<notin> set (impact_scores m) \<and> 0 \<notin> set (beneficiaries m)
     \<and> 0 \<notin> set (emissions_intensities m)"

text \<open>The three means a simulation record stores.\<close>

definition stored_means :: "MonteCarloSimulation \<Rightarrow> real \<times> real \<times> real" where
  "stored_means sim = (expected_roi sim, expected_impact_score sim, expected_esg_score sim)"

subsection \<open>Example data\<close>

definition empty_db :: database where
  "empty_db =
     \<lparr> tbl_investments = [], tbl_esg_scores = [], tbl_climate_risks = [],
       tbl_social_impacts = [], tbl_ghg_emissions = [], tbl_peer_benchmarks = [],
       tbl_correlation_analyses = [], tbl_monte_carlo_simulations = [] \<rparr>"

definition holding :: "nat \<Rightarrow> string \<Rightarrow> real option \<Rightarrow> real option \<Rightarrow> Investment" where
  "holding i st amount val =
     \<lparr> inv_id = i, Investment.sector = Some ''Energy'', Investment.industry = None,
       Investment.region = None, investment_date = None, investment_amount = amount,
       current_value = val, status = Some st \<rparr>"

text \<open>A portfolio whose only holding has been exited.\<close>

definition exited_db :: database where
  "exited_db = empty_db\<lparr>tbl_investments := [holding 1 ''exited'' (Some 100) (Some 120)]\<rparr>"

text \<open>One active holding without any assessment and without an investment date.\<close>

definition unassessed_db :: database where
  "unassessed_db = empty_db\<lparr>tbl_investments := [holding 1 ''active'' (Some 100) (Some 120)]\<rparr>"

text \<open>
  One active holding bought on day 0 for 100 and worth 1000; seen on day 1 its
  annualised return is \<^verbatim>\<open>10.0 ** 365.25\<close>.
\<close>

definition overflow_db :: database where
  "overflow_db =
     empty_db
       \<lparr>tbl_investments :=
          [(holding 1 ''active'' (Some 100) (Some 1000))\<lparr>investment_date := Some 0\<rparr>]\<rparr>"

text \<open>
  Two holdings; the first has an ESG score of exactly 0 and a current value of 0, the
  second an ESG score of 60.
\<close>

definition zero_score_db :: database where
  "zero_score_db =
     empty_db
       \<lparr>tbl_investments :=
          [holding 1 ''active'' (Some 100) (Some 0), holding 2 ''active'' (Some 100) (Some 150)],
        tbl_esg_scores :=
          [\<lparr>ESGScore.investment_id = 1, ESGScore.assessment_date = 10,
            overall_esg_score = Some 0\<rparr>,
           \<lparr>ESGScore.investment_id = 2, ESGScore.assessment_date = 10,
            overall_esg_score = Some 60\<rparr>]\<rparr>"

text \<open>
  One holding without an investment amount that has an ESG, a climate-risk and a
  social-impact assessment; its physical risk score is NULL.
\<close>

definition assessed_db :: database where
  "assessed_db =
     empty_db
       \<lparr>tbl_investments := [holding 1 ''active'' None (Some 120)],
        tbl_esg_scores :=
          [\<lparr>ESGScore.investment_id = 1, ESGScore.assessment_date = 10,
            overall_esg_score = Some 70\<rparr>],
        tbl_climate_risks :=
          [\<lparr>ClimateRisk.investment_id = 1, ClimateRisk.assessment_date = 10,
            physical_risk_score = None, transition_risk_score = Some 4,
            climate_opportunity_score = None\<rparr>],
        tbl_social_impacts :=
          [\<lparr>SocialImpact.investment_id = 1, SocialImpact.assessment_date = 10,
            overall_impact_score = Some 6, beneficiaries_reached = None\<rparr>]\<rparr>"

text \<open>Two streams of standard normal deviates: all zero, and alternating \<open>1\<close>, \<open>- 1\<close>.\<close>

definition zero_draws :: "nat \<Rightarrow> real" where
  "zero_draws k = 0"

definition alternating_draws :: "nat \<Rightarrow> real" where
  "alternating_draws k = (if even k then 1 else - 1)"

text \<open>A stream of deviates that falls by one with every draw.\<close>

definition falling_draws :: "nat \<Rightarrow> real" where
  "falling_draws k = - real k"

text \<open>Per-holding inputs of a portfolio of two holdings, and of a single holding.\<close>

definition two_holdings :: "inv_data list" where
  "two_holdings =
     [\<lparr>weight = 1 / 4, annual_roi = Flt 8, impact = Some 6, esg = Some 40\<rparr>,
      \<lparr>weight = 3 / 4, annual_roi = Flt 4, impact = Some 8, esg = Some 80\<rparr>]"

definition one_holding :: inv_data where
  "one_holding = \<lparr>weight = 1, annual_roi = Flt 8, impact = Some 5, esg = Some 50\<rparr>"

section \<open>Properties of the correlation engine\<close>

lemma sq_dev_sum_nonneg: "0 \<le> sq_dev_sum x"
  unfolding sq_dev_sum_def by (rule sum_list_nonneg) auto


lemma sq_dev_sum_short: "length x < 2 \<Longrightarrow> sq_dev_sum x = 0"
proof -
  assume "length x < 2"
  then consider "x = []" | a where "x = [a]"
    by (cases x; cases "tl x") auto
  then show ?thesis by cases (simp_all add: sq_dev_sum_def)
qed

lemma calc_correlation_unfold:
  assumes "length x = length y" and "2 \<le> length x"
  shows "calc_correlation x y =
     (if sq_dev_sum x = 0 \<or> sq_dev_sum y = 0 then Inr None
      else Inr (Some ((\<Sum>i\<leftarrow>[0..<length x].
              (x ! i - sum_list x / real (length x)) * (y ! i - sum_list y / real (length y)))
            / sqrt (sq_dev_sum x * sq_dev_sum y))))"
proof -
  from assms have ne: "x \<noteq> []" "y \<noteq> []" by auto
  from assms show ?thesis
    by (simp add: calc_correlation_def mean_def ne sq_dev_sum_def Let_def)
qed



subsection \<open>Rounding and the operations on doubles\<close>

lemma round_half_even_of_int: "round_half_even (of_int m) = m"
  by (simp add: round_half_even_def)

lemma ulp_exponent_le:
  assumes "m \<noteq> 0" and "\<bar>m\<bar> < 2 ^ 53" and "- 1074 \<le> e"
  shows "ulp_exponent (of_int m * 2 powi e) \<le> e"
proof -
  let ?x = "real_of_int m * 2 powi e"
  have pos: "0 < \<bar>?x\<bar>" using assms(1) by simp
  have "\<bar>?x\<bar> = \<bar>real_of_int m\<bar> * 2 powi e" by (simp add: abs_mult)
  also have "\<dots> < 2 ^ 53 * 2 powi e"
  proof -
    from assms(2) have "real_of_int \<bar>m\<bar> < real_of_int (2 ^ 53)" by (simp only: of_int_less_iff)
    then have "\<bar>real_of_int m\<bar> < 2 ^ 53" by simp
    then show ?thesis by (simp add: mult_strict_right_mono)
  qed
  also have "\<dots> = 2 powi (53 + e)" by (simp add: power_int_add)
  also have "\<dots> = 2 powr real_of_int (53 + e)"
    by (rule powr_real_of_int' [symmetric]) simp_all
  finally have "\<bar>?x\<bar> < 2 powr real_of_int (53 + e)" .
  with pos have "log 2 \<bar>?x\<bar> < real_of_int (53 + e)"
    by (simp add: log_less_iff)
  then have "\<lfloor>log 2 \<bar>?x\<bar>\<rfloor> < 53 + e" by (simp only: floor_less_iff)
  with assms(3) show ?thesis by (simp add: ulp_exponent_def)
qed

lemma round_nearest_exact:
  assumes "\<bar>m\<bar> < 2 ^ 53" and "- 1074 \<le> e"
  shows "round_nearest (of_int m * 2 powi e) = of_int m * 2 powi e"
proof (cases "m = 0")
  case True
  then show ?thesis by (simp add: round_nearest_def)
next
  case False
  let ?x = "real_of_int m * 2 powi e"
  let ?u = "ulp_exponent ?x"
  from ulp_exponent_le [OF False assms] have le: "?u \<le> e" .
  then obtain k where k: "e = ?u + int k"
    by (metis zle_iff_zadd)
  have split: "(2::real) powi e = 2 ^ k * 2 powi ?u"
    by (subst k) (simp add: power_int_add mult.commute)
  have "?x / 2 powi ?u = real_of_int (m * 2 ^ k)"
    by (subst split) simp
  then have "round_half_even (?x / 2 powi ?u) = m * 2 ^ k"
    by (simp only: round_half_even_of_int)
  then have "of_int (round_half_even (?x / 2 powi ?u)) * 2 powi ?u = ?x"
    by (subst split) simp
  with False show ?thesis by (simp add: round_nearest_def)
qed

lemma round_nearest_of_int: "\<bar>m\<bar> < 2 ^ 53 \<Longrightarrow> round_nearest (of_int m) = of_int m"
  using round_nearest_exact [of m 0] by simp

lemma round_nearest_pow2: "round_nearest (2 ^ k) = 2 ^ k"
  using round_nearest_exact [of 1 "int k"] by simp

lemma round_nearest_neg_pow2: "round_nearest (- (2 ^ k)) = - (2 ^ k)"
  using round_nearest_exact [of "- 1" "int k"] by simp

lemma max_double_pow2: "k \<le> 1023 \<Longrightarrow> (2::real) ^ k \<le> max_double"
proof -
  assume "k \<le> 1023"
  then have "(2::real) ^ k \<le> 2 ^ 1023" by (intro power_increasing) simp_all
  also have "\<dots> \<le> max_double" by (simp add: max_double_def)
  finally show ?thesis .
qed

lemma to_double_zero: "to_double 0 = Finite 0"
  by (simp add: to_double_def round_nearest_def max_double_def)

lemma max_double_pos: "0 < max_double"
  by (simp add: max_double_def)

lemma to_double_pow2: "k \<le> 1023 \<Longrightarrow> to_double (2 ^ k) = Finite (2 ^ k)"
proof -
  assume "k \<le> 1023"
  then have a: "(2::real) ^ k \<le> max_double" by (rule max_double_pow2)
  have "- max_double < 0" using max_double_pos by simp
  also have "(0::real) < 2 ^ k" by simp
  finally have b: "- max_double < (2::real) ^ k" .
  from a b show ?thesis
    by (simp add: to_double_def round_nearest_pow2 not_less less_imp_le)
qed

lemma to_double_neg_pow2: "k \<le> 1023 \<Longrightarrow> to_double (- (2 ^ k)) = Finite (- (2 ^ k))"
proof -
  assume "k \<le> 1023"
  then have a: "(2::real) ^ k \<le> max_double" by (rule max_double_pow2)
  have "- ((2::real) ^ k) < 0" by simp
  also have "\<dots> < max_double" by (rule max_double_pos)
  finally have b: "- ((2::real) ^ k) < max_double" .
  from a b show ?thesis
    by (simp add: to_double_def round_nearest_neg_pow2 not_less less_imp_le)
qed

lemma to_double_overflow: "1024 \<le> k \<Longrightarrow> to_double (2 ^ k) = PlusInf"
proof -
  assume "1024 \<le> k"
  then have "(2::real) ^ 1024 \<le> 2 ^ k" by (intro power_increasing) simp_all
  moreover have "max_double < (2::real) ^ 1024" by (simp add: max_double_def)
  ultimately have "max_double < (2::real) ^ k" by linarith
  then show ?thesis by (simp add: to_double_def round_nearest_pow2)
qed

lemma to_double_int:
  "\<bar>m\<bar> < 2 ^ 53 \<Longrightarrow> to_double (of_int m) = Finite (of_int m)"
proof -
  assume m: "\<bar>m\<bar> < 2 ^ 53"
  then have "\<bar>real_of_int m\<bar> < 2 ^ 53"
    by (metis of_int_abs of_int_less_iff of_int_numeral of_int_power)
  moreover have "(2::real) ^ 53 \<le> max_double" by (rule max_double_pow2) simp
  ultimately have "real_of_int m \<le> max_double" "- max_double \<le> real_of_int m" by linarith+
  with m show ?thesis by (simp add: to_double_def round_nearest_of_int not_less)
qed

lemma to_double_small [simp]:
  "to_double 0 = Finite 0" "to_double 1 = Finite 1" "to_double (- 1) = Finite (- 1)"
  "to_double 2 = Finite 2" "to_double (- 2) = Finite (- 2)" "to_double 4 = Finite 4"
  "to_double 8 = Finite 8" "to_double 16 = Finite 16"
  using to_double_int [of 0] to_double_int [of 1] to_double_int [of "- 1"]
    to_double_int [of 2] to_double_int [of "- 2"] to_double_int [of 4]
    to_double_int [of 8] to_double_int [of 16]
  by simp_all

lemma round_nearest_small: "round_nearest 1 = 1" "round_nearest 4 = 4" "round_nearest 0 = 0"
  using round_nearest_of_int [of 1] round_nearest_of_int [of 4] round_nearest_of_int [of 0]
  by simp_all

lemma dsquare_int:
  assumes "\<bar>m\<bar> < 2 ^ 26"
  shows "dsquare (Finite (of_int m)) = Inr (Finite (of_int (m * m)))"
proof -
  have "\<bar>m\<bar> * \<bar>m\<bar> < 2 ^ 26 * 2 ^ 26"
    using assms by (intro mult_strict_mono) simp_all
  then have b: "\<bar>m * m\<bar> < 2 ^ 53" by (simp add: abs_mult)
  then have r: "round_nearest (real_of_int (m * m)) = real_of_int (m * m)"
    by (rule round_nearest_of_int)
  from b have "\<bar>real_of_int (m * m)\<bar> < 2 ^ 53"
    by (metis of_int_abs of_int_less_iff of_int_numeral of_int_power)
  moreover have "(2::real) ^ 53 \<le> max_double" by (rule max_double_pow2) simp
  ultimately have le: "\<not> max_double < real_of_int (m * m)" by linarith
  have "dsquare (Finite (of_int m)) =
      (if max_double < round_nearest (real_of_int (m * m)) then Inl OverflowError
       else Inr (Finite (round_nearest (real_of_int (m * m)))))"
    by simp
  also have "\<dots> = Inr (Finite (of_int (m * m)))"
    unfolding r using le by (simp only: if_False)
  finally show ?thesis .
qed

lemma instance_on_doubles:
  "calc_correlation_double [Finite 1, Finite 2, Finite 3] [Finite 2, Finite 4, Finite 6]
     = Inr (Some (Finite 1))"
proof -
  have m: "mean_double [Finite 1, Finite 2, Finite 3] = Inr (Finite 2)"
    "mean_double [Finite 2, Finite 4, Finite 6] = Inr (Finite 4)"
    by (simp_all add: mean_double_def)
  have sq: "dsquare (Finite 0) = Inr (Finite 0)" "dsquare (Finite 1) = Inr (Finite 1)"
    "dsquare (Finite (- 1)) = Inr (Finite 1)" "dsquare (Finite 2) = Inr (Finite 4)"
    "dsquare (Finite (- 2)) = Inr (Finite 4)"
    using dsquare_int [of 0] dsquare_int [of 1] dsquare_int [of "- 1"] dsquare_int [of 2]
      dsquare_int [of "- 2"]
    by (simp_all del: dsquare.simps)
  have sx: "sum_squares [Finite 1, Finite 2, Finite 3] (Finite 2) (Finite 0) = Inr (Finite 2)"
    by (simp add: dsub_def sq del: dsquare.simps)
  have sy: "sum_squares [Finite 2, Finite 4, Finite 6] (Finite 4) (Finite 0) = Inr (Finite 8)"
    by (simp add: dsub_def sq del: dsquare.simps)
  have r: "sqrt 16 = 4" by simp
  show ?thesis
    unfolding calc_correlation_double_def Let_def
    by (simp add: m sx sy sum_double_def dsub_def upt_rec r round_nearest_small
        del: sum_squares.simps dsquare.simps)
qed

lemma overflow_on_doubles:
  "calc_correlation_double [Finite 0, Finite (2 ^ 300)] [Finite 0, Finite (2 ^ 300)]
     = Inr (Some (Finite 0))"
proof -
  let ?x = "[Finite 0, Finite (2 ^ 300)]"
  have half: "(2::real) ^ 300 / 2 = 2 ^ 299" by simp
  have "mean_double ?x = Inr (to_double (2 ^ 300 / 2))"
    by (simp add: mean_double_def)
  then have m: "mean_double ?x = Inr (Finite (2 ^ 299))"
    by (simp only: half to_double_pow2 [of 299])
  have t299: "to_double (2 ^ 299) = Finite (2 ^ 299)" by (rule to_double_pow2) simp
  have t299n: "to_double (- (2 ^ 299)) = Finite (- (2 ^ 299))"
    by (rule to_double_neg_pow2) simp
  have t598: "to_double (2 ^ 598) = Finite (2 ^ 598)" by (rule to_double_pow2) simp
  have t599: "to_double (2 ^ 599) = Finite (2 ^ 599)" by (rule to_double_pow2) simp
  have t1198: "to_double (2 ^ 1198) = PlusInf" by (rule to_double_overflow) simp
  have d0: "dsub (Finite 0) (Finite (2 ^ 299)) = Finite (- (2 ^ 299))"
    by (simp only: dsub_def dneg.simps dadd.simps add_0 t299n)
  have diff: "2 ^ 300 + - (2 ^ 299) = (2::real) ^ 299" by simp
  have d1: "dsub (Finite (2 ^ 300)) (Finite (2 ^ 299)) = Finite (2 ^ 299)"
    by (simp only: dsub_def dneg.simps dadd.simps diff t299)
  have sq: "(2::real) ^ 299 * 2 ^ 299 = 2 ^ 598" "- ((2::real) ^ 299) * - (2 ^ 299) = 2 ^ 598"
    by simp_all
  have p0: "dmul (Finite (- (2 ^ 299))) (Finite (- (2 ^ 299))) = Finite (2 ^ 598)"
    by (simp only: dmul.simps sq t598)
  have p1: "dmul (Finite (2 ^ 299)) (Finite (2 ^ 299)) = Finite (2 ^ 598)"
    by (simp only: dmul.simps sq t598)
  have a0: "dadd (Finite 0) (Finite (2 ^ 598)) = Finite (2 ^ 598)"
    by (simp only: dadd.simps add_0 t598)
  have dbl: "(2::real) ^ 598 + 2 ^ 598 = 2 ^ 599" by simp
  have a1: "dadd (Finite (2 ^ 598)) (Finite (2 ^ 598)) = Finite (2 ^ 599)"
    by (simp only: dadd.simps dbl t599)
  have le598: "\<not> max_double < (2::real) ^ 598"
    using max_double_pow2 [of 598] by simp
  have s0: "dsquare (Finite (- (2 ^ 299))) = Inr (Finite (2 ^ 598))"
    using le598 by (simp only: dsquare.simps sq round_nearest_pow2 if_False)
  have s1: "dsquare (Finite (2 ^ 299)) = Inr (Finite (2 ^ 598))"
    using le598 by (simp only: dsquare.simps sq round_nearest_pow2 if_False)
  have ss: "sum_squares ?x (Finite (2 ^ 299)) (Finite 0) = Inr (Finite (2 ^ 599))"
    by (simp only: sum_squares.simps d0 d1 s0 s1 a0 a1 sum.case)
  have idx: "[0..<length ?x] = [0, 1]" by (simp add: upt_rec)
  have num: "sum_double (map (\<lambda>i. dmul (dsub (?x ! i) (Finite (2 ^ 299)))
                (dsub (?x ! i) (Finite (2 ^ 299)))) [0, 1]) = Finite (2 ^ 599)"
    by (simp only: sum_double_def list.map fold_simps nth_Cons_0 nth_Cons_Suc One_nat_def
        d0 d1 p0 p1 a0 a1)
  have prod: "(2::real) ^ 599 * 2 ^ 599 = 2 ^ 1198" by simp
  have den: "droot (dmul (Finite (2 ^ 599)) (Finite (2 ^ 599))) = PlusInf"
    by (simp only: dmul.simps prod t1198 droot.simps)
  have quot: "ddiv (Finite (2 ^ 599)) PlusInf = Inr (Finite 0)"
    by (simp only: ddiv.simps)
  have len: "(length ?x \<noteq> length ?x) = False" "(length ?x < 2) = False" by simp_all
  show ?thesis
    unfolding calc_correlation_double_def Let_def
    by (simp only: len m idx num ss den quot sum.case double.distinct if_False
        simp_thms)
qed

subsection \<open>Self-correlation\<close>

text \<open>
  C6, as amended. On \<open>x = [1, 2, 3]\<close> and \<open>y = [2, 4, 6]\<close> the correlation engine returns
  exactly 1.0, on doubles as in exact arithmetic. The correlation of a vector with itself
  is 1 in exact arithmetic whenever its sum of squared deviations is positive.
\<close>

theorem calc_correlation_self:
  "calc_correlation_double [Finite 1, Finite 2, Finite 3] [Finite 2, Finite 4, Finite 6]
     = Inr (Some (Finite 1))
   \<and> calc_correlation [1, 2, 3] [2, 4, 6] = Inr (Some 1)
   \<and> (0 < sq_dev_sum x \<longrightarrow> calc_correlation x x = Inr (Some 1))"
proof (intro conjI)
  show "calc_correlation_double [Finite 1, Finite 2, Finite 3] [Finite 2, Finite 4, Finite 6]
     = Inr (Some (Finite 1))"
    by (rule instance_on_doubles)
next
  have "sqrt (2 * 8) = 4"
    by (rule real_sqrt_unique) simp_all
  then show "calc_correlation [1, 2, 3] [2, 4, 6] = Inr (Some 1)"
    by (simp add: calc_correlation_def mean_def upt_rec power2_eq_square)
next
  show "0 < sq_dev_sum x \<longrightarrow> calc_correlation x x = Inr (Some 1)"
  proof
    assume pos: "0 < sq_dev_sum x"
    then have len: "2 \<le> length x"
      using sq_dev_sum_short [of x] by (cases "length x < 2") auto
    have num: "(\<Sum>i\<leftarrow>[0..<length x].
        (x ! i - sum_list x / real (length x)) * (x ! i - sum_list x / real (length x)))
        = sq_dev_sum x"
      by (simp add: sq_dev_sum_def power2_eq_square)
    from pos len show "calc_correlation x x = Inr (Some 1)"
      by (simp add: calc_correlation_unfold num)
  qed
qed

theorem calc_correlation_self_witness:
  "0 < sq_dev_sum [1, 2, 4] \<and> calc_correlation [1, 2, 4] [1, 2, 4] = Inr (Some 1)"
proof -
  have pos: "0 < sq_dev_sum [1, 2, 4]"
    by (simp add: sq_dev_sum_def upt_rec power2_eq_square)
  with calc_correlation_self [of "[1, 2, 4]"] show ?thesis by simp
qed

text \<open>
  C6 as stated fails on doubles: the vector \<open>[0, 2 ^ 300]\<close> has a positive sum of
  squared deviations, \<open>2 ^ 599\<close>, whose square is beyond the doubles. The denominator is
  the infinity and the correlation of the vector with itself is 0.0, not 1.0.
\<close>

theorem self_correlation_overflow:
  "0 < sq_dev_sum [0, 2 ^ 300]
   \<and> calc_correlation_double [Finite 0, Finite (2 ^ 300)] [Finite 0, Finite (2 ^ 300)]
       = Inr (Some (Finite 0))
   \<and> Finite 0 \<noteq> Finite 1"
proof (intro conjI)
  show "0 < sq_dev_sum [0, 2 ^ 300]"
    by (simp add: sq_dev_sum_def upt_rec)
  show "calc_correlation_double [Finite 0, Finite (2 ^ 300)] [Finite 0, Finite (2 ^ 300)]
       = Inr (Some (Finite 0))"
    by (rule overflow_on_doubles)
  show "Finite 0 \<noteq> Finite 1" by simp
qed

section \<open>Properties of the Monte Carlo simulator\<close>

subsection \<open>Indexing and percentiles\<close>

lemma py_index_in_range:
  "0 \<le> i \<Longrightarrow> i < int (length xs) \<Longrightarrow> py_index xs i = Inr (xs ! nat i)"
  by (simp add: py_index_def Let_def)

lemma py_int_nonneg: "0 \<le> x \<Longrightarrow> py_int x = \<lfloor>x\<rfloor>"
  by (simp add: py_int_def)

lemma py_int_percent: "py_int (real m / 100) = int (m div 100)"
proof -
  have "\<lfloor>real m / real (100::nat)\<rfloor> = int (m div 100)"
    by (rule floor_divide_of_nat_eq)
  then show ?thesis by (simp add: py_int_def)
qed

lemma calc_percentiles_loop_closed:
  assumes "sv \<noteq> []"
  shows "calc_percentiles_loop sv ps acc =
     Inr (fold (\<lambda>p. AList.update p (sv ! min (length sv * p div 100) (length sv - 1))) ps acc)"
proof (induction ps arbitrary: acc)
  case Nil
  show ?case by simp
next
  case (Cons p ps)
  let ?n = "length sv"
  let ?j = "min (?n * p div 100) (?n - 1)"
  from assms have pos: "0 < ?n" by simp
  have idx: "min (py_int (real (?n * p) / 100)) (int ?n - 1) = int ?j"
    using pos by (simp only: py_int_percent) 
  have "?j \<le> ?n - 1" by simp
  with pos have lt: "?j < ?n" by linarith
  have "py_index sv (int ?j) = Inr (sv ! ?j)"
    using lt by (subst py_index_in_range) simp_all
  with idx Cons.IH show ?case by (simp add: Let_def)
qed

lemma mean_nonempty: "xs \<noteq> [] \<Longrightarrow> mean xs = Inr (sum_list xs / real (length xs))"
  by (simp add: mean_def)

lemma mean_replicate: "0 < n \<Longrightarrow> mean (replicate n c) = Inr c"
  by (simp add: mean_def sum_list_replicate)

lemma sum_sq_replicate_zero: "(\<Sum>x\<leftarrow>replicate n c. (x - c)\<^sup>2) = (0::real)"
  by (induction n) simp_all

lemma stdev_replicate: "2 \<le> n \<Longrightarrow> stdev (replicate n c) = Inr 0"
  by (simp add: stdev_def Let_def sum_list_replicate sum_sq_replicate_zero)

lemma stdev_or_zero_replicate: "stdev_or_zero (replicate n c) = Inr 0"
  by (simp add: stdev_or_zero_def stdev_replicate)

lemma sort_replicate: "sort (replicate n (c::real)) = replicate n c"
  by (rule sort_key_id_if_sorted) (simp add: sorted_replicate)

subsection \<open>The loops\<close>

lemma holdings_loop_result:
  "holdings_loop ds mv z k (r, ai, ae) = Inr ((r', qi', qe'), k') \<Longrightarrow>
     qi' = ai + weight_sum impact ds \<and> qe' = ae + weight_sum esg ds"
proof (induction ds arbitrary: k r ai ae)
  case Nil
  then show ?case by (simp add: weight_sum_def)
next
  case (Cons d ds)
  from Cons.prems obtain i e where ie: "impact d = Some i" "esg d = Some e"
    by (auto simp: Let_def split: option.splits)
  with Cons.prems obtain r1 where
    "holdings_loop ds mv z (Suc k) (r1, ai + i * weight d, ae + e * weight d)
       = Inr ((r', qi', qe'), k')"
    by (simp add: Let_def)
  from Cons.IH [OF this] ie show ?case
    by (simp add: weight_sum_def or_zero_def)
qed

lemma iterations_loop_result:
  "iterations_loop m ds mv h z k (rr, imps, esgs) = Inr (rr', imps', esgs') \<Longrightarrow>
     imps' = imps @ replicate m (weight_sum impact ds)
     \<and> esgs' = esgs @ replicate m (weight_sum esg ds)
     \<and> length rr' = length rr + m"
proof (induction m arbitrary: k rr imps esgs)
  case 0
  then show ?case by simp
next
  case (Suc m)
  from Suc.prems obtain r p_i p_e k' where
    hl: "holdings_loop ds mv z k (Flt 0, 0, 0) = Inr ((r, p_i, p_e), k')"
    by (auto split: sum.splits)
  from holdings_loop_result [OF hl]
  have v: "p_i = weight_sum impact ds" "p_e = weight_sum esg ds" by simp_all
  from Suc.prems hl have
    "iterations_loop m ds mv h z k'
       (rr @ [flt_mul r (Flt (real_of_int h))], imps @ [p_i], esgs @ [p_e])
     = Inr (rr', imps', esgs')"
    by (simp add: Let_def)
  from Suc.IH [OF this] v show ?case
    by (simp add: replicate_app_Cons_same)
qed

lemma single_holding_loop:
  assumes "weight d = 1" "annual_roi d = Flt R" "impact d = Some i" "esg d = Some e"
  shows "iterations_loop m [d] 0 h z k (rr, imps, esgs) =
     Inr (rr @ replicate m (Flt (R * real_of_int h)), imps @ replicate m i,
          esgs @ replicate m e)"
proof (induction m arbitrary: k rr imps esgs)
  case 0
  show ?case by simp
next
  case (Suc m)
  have "holdings_loop [d] 0 z k (Flt 0, 0, 0) = Inr ((Flt R, i, e), Suc k)"
    using assms by (simp add: gauss_def Let_def)
  then show ?case
    by (simp add: Suc.IH Let_def replicate_app_Cons_same)
qed


lemma as_floats_length: "as_floats ps = Inr xs \<Longrightarrow> length xs = length ps"
proof (induction ps arbitrary: xs rule: as_floats.induct)
  case 1
  then show ?case by simp
next
  case (2 uu)
  then show ?case by simp
next
  case (3 a ps)
  then show ?case by (auto split: sum.splits)
qed

subsection \<open>The statistics block\<close>

lemma simulation_data_Inr:
  assumes "simulation_data name today n h scenario climate mv creator (rs, imps, esgs) = Inr sim"
  obtains rv where
    "as_floats rs = Inr rv"
    "mean rv = Inr (expected_roi sim)"
    "stdev_or_zero rv = Inr (roi_std_dev sim)"
    "calc_percentiles rv default_percentiles = Inr (roi_percentiles sim)"
    "mean imps = Inr (expected_impact_score sim)"
    "stdev_or_zero imps = Inr (impact_score_std_dev sim)"
    "calc_percentiles imps default_percentiles = Inr (impact_score_percentiles sim)"
    "mean esgs = Inr (expected_esg_score sim)"
    "stdev_or_zero esgs = Inr (esg_score_std_dev sim)"
    "value_at_index (sort rv) (py_int (real (length (sort rv)) * 0.05))
       = Inr (value_at_risk_95 sim)"
    "value_at_index (sort rv) (py_int (real (length (sort rv)) * 0.01))
       = Inr (value_at_risk_99 sim)"
    "sample_roi sim = take 100 rv"
    "sample_impact sim = take 100 imps"
  using assms unfolding simulation_data_def Let_def
  by (auto split: sum.splits)

lemma mean_Inl: "mean xs = Inl e \<Longrightarrow> xs = [] \<and> e = StatisticsError"
  by (auto simp: mean_def split: if_splits)

lemma stdev_or_zero_total: "\<exists>s. stdev_or_zero xs = Inr s"
  by (simp add: stdev_or_zero_def stdev_def Let_def)

lemma sort_nonempty: "xs \<noteq> [] \<Longrightarrow> sort xs \<noteq> []"
  by (metis length_0_conv length_sort)

lemma calc_percentiles_total: "xs \<noteq> [] \<Longrightarrow> \<exists>r. calc_percentiles xs ps = Inr r"
  by (simp add: calc_percentiles_def calc_percentiles_loop_closed sort_nonempty)

lemma value_at_index_total:
  "xs \<noteq> [] \<Longrightarrow> 0 \<le> i \<Longrightarrow> \<exists>v. value_at_index xs i = Inr v"
  by (simp add: value_at_index_def py_index_def Let_def)

lemma cvar_total: "xs \<noteq> [] \<Longrightarrow> \<exists>v. cvar xs i c = Inr v"
  by (simp add: cvar_def mean_def)

lemma probability_total: "xs \<noteq> [] \<Longrightarrow> \<exists>v. probability P xs = Inr v"
  by (simp add: probability_def)

lemma py_int_scaled_nonneg: "0 \<le> c \<Longrightarrow> 0 \<le> py_int (real n * c)"
  by (simp add: py_int_def)

lemma simulation_data_total:
  assumes "as_floats rs = Inr rv" "rv \<noteq> []" "imps \<noteq> []" "esgs \<noteq> []"
  shows "\<exists>sim. simulation_data name today n h scenario climate mv creator (rs, imps, esgs)
           = Inr sim"
proof -
  obtain m1 where m1: "mean rv = Inr m1" using assms by (simp add: mean_def)
  obtain s1 where s1: "stdev_or_zero rv = Inr s1" using stdev_or_zero_total by blast
  obtain p1 where p1: "calc_percentiles rv default_percentiles = Inr p1"
    using calc_percentiles_total assms by blast
  obtain m2 where m2: "mean imps = Inr m2" using assms by (simp add: mean_def)
  obtain s2 where s2: "stdev_or_zero imps = Inr s2" using stdev_or_zero_total by blast
  obtain p2 where p2: "calc_percentiles imps default_percentiles = Inr p2"
    using calc_percentiles_total assms by blast
  obtain m3 where m3: "mean esgs = Inr m3" using assms by (simp add: mean_def)
  obtain s3 where s3: "stdev_or_zero esgs = Inr s3" using stdev_or_zero_total by blast
  have ne: "sort rv \<noteq> []" using assms by (simp add: sort_nonempty)
  let ?i95 = "py_int (real (length (sort rv)) * 0.05)"
  let ?i99 = "py_int (real (length (sort rv)) * 0.01)"
  have n95: "0 \<le> ?i95" by (simp add: py_int_def)
  have n99: "0 \<le> ?i99" by (simp add: py_int_def)
  obtain v95 where v95: "value_at_index (sort rv) ?i95 = Inr v95"
    using value_at_index_total [OF ne n95] by blast
  obtain v99 where v99: "value_at_index (sort rv) ?i99 = Inr v99"
    using value_at_index_total [OF ne n99] by blast
  obtain cv where cv: "cvar (sort rv) ?i95 v95 = Inr cv"
    using cvar_total [OF ne] by blast
  obtain q1 where q1: "probability (\<lambda>r. 0 < r) rv = Inr q1"
    using probability_total assms by blast
  obtain q2 where q2: "probability (\<lambda>i. 7.0 \<le> i) imps = Inr q2"
    using probability_total assms by blast
  obtain q3 where q3: "probability (\<lambda>r. r < - 10) rv = Inr q3"
    using probability_total assms by blast
  show ?thesis
    unfolding simulation_data_def Let_def
    by (simp only: assms m1 s1 p1 m2 s2 p2 m3 s3 v95 v99 cv q1 q2 q3 sum.case prod.case)
      blast
qed

lemma calc_percentiles_replicate:
  assumes "0 < n"
  shows "calc_percentiles (replicate n c) ps = Inr (fold (\<lambda>p. AList.update p c) ps [])"
proof -
  have "fold (\<lambda>p. AList.update p (replicate n c ! min (n * p div 100) (n - 1))) ps []
      = fold (\<lambda>p. AList.update p c) ps []"
  proof (rule fold_cong)
    fix p
    have "min (n * p div 100) (n - 1) \<le> n - 1" by simp
    with assms have "min (n * p div 100) (n - 1) < n" by linarith
    then show "AList.update p (replicate n c ! min (n * p div 100) (n - 1)) = AList.update p c"
      by simp
  qed simp_all
  with assms show ?thesis
    by (simp add: calc_percentiles_def sort_replicate calc_percentiles_loop_closed)
qed

lemma default_percentiles_constant:
  "fold (\<lambda>p. AList.update p c) default_percentiles [] = map (\<lambda>p. (p, c)) default_percentiles"
  by (simp add: default_percentiles_def)

lemma holdings_loop_total:
  assumes "\<forall>d\<in>set ds. impact d \<noteq> None \<and> esg d \<noteq> None \<and> annual_roi d \<noteq> Cplx"
  shows "\<exists>r' ai' ae' k'. holdings_loop ds mv z k (Flt r, ai, ae) = Inr ((Flt r', ai', ae'), k')"
  using assms
proof (induction ds arbitrary: k r ai ae)
  case Nil
  show ?case by simp
next
  case (Cons d ds)
  from Cons.prems obtain i e a where
    d: "impact d = Some i" "esg d = Some e" "annual_roi d = Flt a"
    by (cases "annual_roi d") auto
  from Cons.prems have "\<forall>d\<in>set ds. impact d \<noteq> None \<and> esg d \<noteq> None \<and> annual_roi d \<noteq> Cplx"
    by simp
  from Cons.IH [OF this] d show ?case by (simp add: Let_def)
qed

lemma iterations_loop_total:
  assumes "\<forall>d\<in>set ds. impact d \<noteq> None \<and> esg d \<noteq> None \<and> annual_roi d \<noteq> Cplx"
    and "as_floats rr = Inr xs"
  shows "\<exists>rr' xs' imps' esgs'.
           iterations_loop m ds mv h z k (rr, imps, esgs) = Inr (rr', imps', esgs')
           \<and> as_floats rr' = Inr xs'"
  using assms(2)
proof (induction m arbitrary: k rr xs imps esgs)
  case 0
  then show ?case by simp
next
  case (Suc m)
  obtain r' ai' ae' k' where
    hl: "holdings_loop ds mv z k (Flt 0, 0, 0) = Inr ((Flt r', ai', ae'), k')"
    using holdings_loop_total [OF assms(1)] by blast
  have "as_floats (rr @ [Flt (r' * real_of_int h)]) = Inr (xs @ [r' * real_of_int h])"
    using Suc.prems
  proof (induction rr arbitrary: xs rule: as_floats.induct)
    case (3 a ps)
    then show ?case by (auto split: sum.splits)
  qed simp_all
  from Suc.IH [OF this] hl show ?case by (simp add: Let_def)
qed

lemma simulate_total:
  assumes "1 \<le> n"
    and "\<forall>d\<in>set ds. impact d \<noteq> None \<and> esg d \<noteq> None \<and> annual_roi d \<noteq> Cplx"
  shows "\<exists>sim. simulate ds name today n h scenario climate mv creator z = Inr sim"
proof -
  have "as_floats [] = Inr []" by simp
  from iterations_loop_total [OF assms(2) this]
  obtain rr xs imps esgs where
    it: "run_iterations ds n h mv z = Inr (rr, imps, esgs)" and fl: "as_floats rr = Inr xs"
    unfolding run_iterations_def by blast
  from it have "imps = replicate (nat n) (weight_sum impact ds)"
    "esgs = replicate (nat n) (weight_sum esg ds)" "length rr = nat n"
    unfolding run_iterations_def by (auto dest: iterations_loop_result)
  with assms(1) fl as_floats_length [OF fl] have "xs \<noteq> []" "imps \<noteq> []" "esgs \<noteq> []"
    by auto
  from simulation_data_total [OF fl this] it show ?thesis
    by (simp add: simulate_def)
qed


text \<open>
  C9. In every simulation run the impact and ESG values of an iteration are the
  weight-sums of the holdings' scores, without any random term, hence the same in all
  iterations; the stored standard deviations of impact and ESG are 0 and every impact
  percentile is the weight-summed impact.
\<close>

theorem impact_esg_deterministic:
  assumes "simulate ds name today n h scenario climate mv creator z = Inr sim"
  shows "(\<exists>rr. run_iterations ds n h mv z
            = Inr (rr, replicate (nat n) (weight_sum impact ds),
                   replicate (nat n) (weight_sum esg ds)))
    \<and> impact_score_std_dev sim = 0
    \<and> esg_score_std_dev sim = 0
    \<and> impact_score_percentiles sim = map (\<lambda>p. (p, weight_sum impact ds)) default_percentiles"
proof -
  from assms obtain rr imps esgs where
    it: "run_iterations ds n h mv z = Inr (rr, imps, esgs)"
    and sd: "simulation_data name today n h scenario climate mv creator (rr, imps, esgs)
               = Inr sim"
    by (auto simp: simulate_def split: sum.splits)
  from it have series: "imps = replicate (nat n) (weight_sum impact ds)"
    "esgs = replicate (nat n) (weight_sum esg ds)"
    unfolding run_iterations_def by (auto dest: iterations_loop_result)
  from sd obtain rv where
    mi: "mean imps = Inr (expected_impact_score sim)"
    and si: "stdev_or_zero imps = Inr (impact_score_std_dev sim)"
    and pc: "calc_percentiles imps default_percentiles = Inr (impact_score_percentiles sim)"
    and se: "stdev_or_zero esgs = Inr (esg_score_std_dev sim)"
    by (rule simulation_data_Inr)
  from mi have "imps \<noteq> []" by (auto simp: mean_def)
  with series have m: "0 < nat n" by simp
  from si have "impact_score_std_dev sim = 0"
    by (simp add: series stdev_or_zero_replicate)
  moreover from se have "esg_score_std_dev sim = 0"
    by (simp add: series stdev_or_zero_replicate)
  moreover from pc m have
    "impact_score_percentiles sim = map (\<lambda>p. (p, weight_sum impact ds)) default_percentiles"
    by (simp add: series calc_percentiles_replicate default_percentiles_constant)
  ultimately show ?thesis using it series by simp
qed

lemma value_at_index_fraction:
  assumes "xs \<noteq> []" and "0 \<le> c" and "c < 1"
  shows "value_at_index xs (py_int (real (length xs) * c))
           = Inr (xs ! nat \<lfloor>real (length xs) * c\<rfloor>)"
proof -
  let ?x = "real (length xs) * c"
  from assms have pos: "0 < real (length xs)" by simp
  from assms(2) have nn: "0 \<le> ?x" by simp
  from pos assms(3) have "?x < real (length xs)" by simp
  then have lt: "\<lfloor>?x\<rfloor> < int (length xs)" by (simp add: floor_less_iff)
  from nn have ge: "0 \<le> \<lfloor>?x\<rfloor>" by simp
  from nn have "py_int ?x = \<lfloor>?x\<rfloor>" by (rule py_int_nonneg)
  with lt ge show ?thesis
    by (simp add: value_at_index_def py_index_in_range)
qed

lemma as_floats_map_Flt: "as_floats (map Flt xs) = Inr xs"
  by (induction xs) simp_all

lemma single_holding_series:
  assumes "weight d = 1" "annual_roi d = Flt R" "impact d = Some i" "esg d = Some e"
  shows "iterations_loop m [d] mv h z k (rr, imps, esgs) =
     Inr (rr @ map (\<lambda>j. Flt ((R + z (k + j) * (mv * 100)) * real_of_int h)) [0..<m],
          imps @ replicate m i, esgs @ replicate m e)"
proof (induction m arbitrary: k rr imps esgs)
  case 0
  show ?case by simp
next
  case (Suc m)
  have "holdings_loop [d] mv z k (Flt 0, 0, 0)
      = Inr ((Flt (R + z k * (mv * 100)), i, e), Suc k)"
    using assms by (simp add: gauss_def Let_def)
  then show ?case
    by (simp add: Suc.IH Let_def replicate_app_Cons_same map_upt_Suc del: upt_Suc)
qed

text \<open>
  C5. In every simulation result \<open>value_at_risk_99\<close> is the element of the
  ascending-sorted return series at index \<open>floor (n * 0.01)\<close> and \<open>value_at_risk_95\<close> the
  element at index \<open>floor (n * 0.05)\<close>, where \<open>n\<close> is the number of iterations; the first
  index is at most the second, which lies inside the series, and so
  \<open>value_at_risk_99 \<le> value_at_risk_95\<close>.
\<close>

theorem value_at_risk_ranks:
  assumes "simulate ds name today n h scenario climate mv creator z = Inr sim"
  shows "\<exists>series imps esgs returns.
      run_iterations ds n h mv z = Inr (series, imps, esgs)
    \<and> as_floats series = Inr returns
    \<and> length returns = nat n
    \<and> nat \<lfloor>real (length returns) * 0.01\<rfloor> \<le> nat \<lfloor>real (length returns) * 0.05\<rfloor>
    \<and> nat \<lfloor>real (length returns) * 0.05\<rfloor> < length returns
    \<and> value_at_risk_99 sim = sort returns ! nat \<lfloor>real (length returns) * 0.01\<rfloor>
    \<and> value_at_risk_95 sim = sort returns ! nat \<lfloor>real (length returns) * 0.05\<rfloor>
    \<and> value_at_risk_99 sim \<le> value_at_risk_95 sim"
proof -
  from assms obtain rr imps esgs where
    it: "run_iterations ds n h mv z = Inr (rr, imps, esgs)"
    and sd: "simulation_data name today n h scenario climate mv creator (rr, imps, esgs)
               = Inr sim"
    by (auto simp: simulate_def split: sum.splits)
  from sd obtain rv where
    fl: "as_floats rr = Inr rv"
    and mr: "mean rv = Inr (expected_roi sim)"
    and v95: "value_at_index (sort rv) (py_int (real (length (sort rv)) * 0.05))
       = Inr (value_at_risk_95 sim)"
    and v99: "value_at_index (sort rv) (py_int (real (length (sort rv)) * 0.01))
       = Inr (value_at_risk_99 sim)"
    by (rule simulation_data_Inr)
  let ?s = "sort rv"
  let ?n = "real (length rv)"
  from it have "length rr = nat n"
    unfolding run_iterations_def by (auto dest: iterations_loop_result)
  with as_floats_length [OF fl] have len: "length rv = nat n" by simp
  from mr have rne: "rv \<noteq> []" by (auto simp: mean_def)
  then have ne: "?s \<noteq> []" by (rule sort_nonempty)
  from v95 value_at_index_fraction [OF ne, of "0.05"]
  have a: "value_at_risk_95 sim = ?s ! nat \<lfloor>?n * 0.05\<rfloor>" by simp
  from v99 value_at_index_fraction [OF ne, of "0.01"]
  have b: "value_at_risk_99 sim = ?s ! nat \<lfloor>?n * 0.01\<rfloor>" by simp
  have "?n * 0.01 \<le> ?n * 0.05" by simp
  then have le: "nat \<lfloor>?n * 0.01\<rfloor> \<le> nat \<lfloor>?n * 0.05\<rfloor>"
    by (intro nat_mono floor_mono)
  from rne have "?n * 0.05 < ?n" by simp
  then have "\<lfloor>?n * 0.05\<rfloor> < int (length rv)" by (simp add: floor_less_iff)
  moreover have "0 \<le> \<lfloor>?n * 0.05\<rfloor>" by simp
  ultimately have lt: "nat \<lfloor>?n * 0.05\<rfloor> < length rv"
    by (simp only: nat_less_iff)
  have "sorted ?s" by simp
  from sorted_nth_mono [OF this le] lt a b
  have "value_at_risk_99 sim \<le> value_at_risk_95 sim" by simp
  with it fl len le lt a b show ?thesis by blast
qed

text \<open>
  C3, as amended. Running the simulator when there is no active holding raises
  \<^verbatim>\<open>ValueError\<close> with the message \<^verbatim>\<open>No active investments for simulation\<close>, and the
  database is returned unchanged: no simulation record is stored.
\<close>

theorem run_simulation_no_active_investments:
  assumes "active_investments db = []"
  shows "run_simulation db today z name n h scenario climate mv creator
           = (Inl (ValueError ''No active investments for simulation''), db)"
  using assms by (simp add: run_simulation_def)

lemma py_pow_error: "py_pow b e = Inl err \<Longrightarrow> err = OverflowError"
  by (auto simp: py_pow_def split: if_splits)

lemma annual_roi_of_error: "annual_roi_of today invst = Inl err \<Longrightarrow> err = OverflowError"
  by (auto simp: annual_roi_of_def Let_def dest: py_pow_error
      split: option.splits if_splits sum.splits)

lemma collect_loop_error:
  "collect_loop db today pv investments = Inl err \<Longrightarrow> err = OverflowError"
  by (induction investments)
    (auto dest: annual_roi_of_error split: sum.splits)

lemma collect_loop_length:
  "collect_loop db today pv investments = Inr ds \<Longrightarrow> length ds = length investments"
  by (induction investments arbitrary: ds) (auto split: sum.splits)

text \<open>
  C8, as amended. A negative iteration count is not checked on entry. The call reads
  the active holdings first: without any it raises the no-active-investments
  \<^verbatim>\<open>ValueError\<close>. Otherwise it collects the per-holding inputs, where the annualised
  return of a holding may raise \<^verbatim>\<open>OverflowError\<close>; if none does, it runs zero
  iterations and raises \<^verbatim>\<open>StatisticsError\<close> at the mean of the empty return series.
  In every case nothing is stored.
\<close>

theorem run_simulation_negative_iterations:
  assumes "n < 0"
  shows "run_simulation db today z name n h scenario climate mv creator
           = (Inl (if active_investments db = []
                   then ValueError ''No active investments for simulation''
                   else if isl (collect_investment_data db today (active_investments db))
                   then OverflowError
                   else StatisticsError), db)"
proof -
  from assms have "nat n = 0" by simp
  then have st: "simulate ds name today n h scenario climate mv creator z = Inl StatisticsError"
    for ds
    by (simp add: simulate_def run_iterations_def simulation_data_def mean_def)
  show ?thesis
  proof (cases "collect_investment_data db today (active_investments db)")
    case (Inl err)
    then have "err = OverflowError"
      by (auto simp: collect_investment_data_def dest: collect_loop_error)
    with Inl show ?thesis by (simp add: run_simulation_def Let_def)
  next
    case (Inr ds)
    with st show ?thesis by (simp add: run_simulation_def Let_def)
  qed
qed

lemma unassessed_inputs:
  "collect_investment_data unassessed_db 0 (active_investments unassessed_db)
     = Inr [one_holding]"
  by (simp add: collect_investment_data_def investment_data_of_def active_investments_def
      unassessed_db_def empty_db_def holding_def holding_value_def py_or_def or_zero_def
      truthy_def annual_roi_of_def latest_impact_def latest_esg_def latest_def
      one_holding_def)

lemma overflowing_power: "max_double < 10 powr 365.25"
proof -
  have "max_double < (10::real) ^ 365" by (simp add: max_double_def)
  also have "(10::real) ^ 365 = 10 powr 365" by simp
  also have "\<dots> \<le> 10 powr 365.25" by (rule powr_mono) simp_all
  finally show ?thesis .
qed

lemma overflowing_inputs:
  "collect_investment_data overflow_db 1 (active_investments overflow_db) = Inl OverflowError"
proof -
  have "py_pow 10 365.25 = Inl OverflowError"
    using overflowing_power by (simp add: py_pow_def)
  moreover have "1 / (1 / 365.25) = (365.25::real)" by simp
  ultimately show ?thesis
    by (simp add: collect_investment_data_def active_investments_def overflow_db_def
        empty_db_def holding_def annual_roi_of_def truthy_def or_zero_def Let_def)
qed

subsection \<open>The properties on example data\<close>


theorem impact_esg_deterministic_witness:
  "\<exists>sim. simulate two_holdings ''s'' 0 3 5 ''baseline'' None 0.15 None alternating_draws = Inr sim
     \<and> impact_score_std_dev sim = 0 \<and> esg_score_std_dev sim = 0
     \<and> impact_score_percentiles sim =
          [(5, 7.5), (10, 7.5), (25, 7.5), (50, 7.5), (75, 7.5), (90, 7.5), (95, 7.5)]"
proof -
  have "\<forall>d\<in>set two_holdings. impact d \<noteq> None \<and> esg d \<noteq> None \<and> annual_roi d \<noteq> Cplx"
    by (simp add: two_holdings_def)
  then have
    "\<exists>sim. simulate two_holdings ''s'' 0 3 5 ''baseline'' None 0.15 None alternating_draws
       = Inr sim"
    by (intro simulate_total) simp_all
  then obtain sim where
    s: "simulate two_holdings ''s'' 0 3 5 ''baseline'' None 0.15 None alternating_draws = Inr sim"
    by blast
  have w: "weight_sum impact two_holdings = 7.5"
    by (simp add: weight_sum_def two_holdings_def or_zero_def)
  from impact_esg_deterministic [OF s] s show ?thesis
    by (auto simp: w default_percentiles_def)
qed

lemma falling_returns:
  "run_iterations [one_holding] 20 1 0.01 falling_draws
     = Inr (map Flt [8, 7, 6, 5, 4, 3, 2, 1, 0, - 1, - 2, - 3, - 4, - 5, - 6, - 7, - 8, - 9,
                     - 10, - 11],
            replicate 20 5, replicate 20 50)"
  unfolding run_iterations_def
  using single_holding_series [where d = one_holding and R = 8 and i = 5 and e = 50
      and m = "nat 20" and mv = "0.01" and h = 1 and z = falling_draws and k = 0
      and rr = "[]" and imps = "[]" and esgs = "[]"]
  by (simp add: one_holding_def falling_draws_def upt_rec)

lemma falling_sorted:
  "sort [8, 7, 6, 5, 4, 3, 2, 1, 0, - 1, - 2, - 3, - 4, - 5, - 6, - 7, - 8, - 9, - 10, - 11 :: real]
     = [- 11, - 10, - 9, - 8, - 7, - 6, - 5, - 4, - 3, - 2, - 1, 0, 1, 2, 3, 4, 5, 6, 7, 8]"
  by simp

theorem value_at_risk_ranks_witness:
  "\<exists>sim. simulate [one_holding] ''s'' 0 20 1 ''baseline'' None 0.01 None falling_draws = Inr sim
     \<and> value_at_risk_99 sim = - 11 \<and> value_at_risk_95 sim = - 10"
proof -
  have "\<exists>sim. simulate [one_holding] ''s'' 0 20 1 ''baseline'' None 0.01 None falling_draws
          = Inr sim"
    by (intro simulate_total) (simp_all add: one_holding_def)
  then obtain sim where
    s: "simulate [one_holding] ''s'' 0 20 1 ''baseline'' None 0.01 None falling_draws = Inr sim"
    by blast
  from value_at_risk_ranks [OF s] obtain series imps esgs returns where
    it: "run_iterations [one_holding] 20 1 0.01 falling_draws = Inr (series, imps, esgs)"
    and fl: "as_floats series = Inr returns"
    and b: "value_at_risk_99 sim = sort returns ! nat \<lfloor>real (length returns) * 0.01\<rfloor>"
    and a: "value_at_risk_95 sim = sort returns ! nat \<lfloor>real (length returns) * 0.05\<rfloor>"
    by blast
  from it falling_returns fl
  have r: "returns = [8, 7, 6, 5, 4, 3, 2, 1, 0, - 1, - 2, - 3, - 4, - 5, - 6, - 7, - 8, - 9,
      - 10, - 11]"
    by (simp add: as_floats_map_Flt)
  have "value_at_risk_99 sim = - 11" unfolding b r falling_sorted by simp
  moreover have "value_at_risk_95 sim = - 10" unfolding a r falling_sorted by simp
  ultimately show ?thesis using s by blast
qed

theorem run_simulation_no_active_investments_witness:
  "active_investments exited_db = []
   \<and> run_simulation exited_db 0 zero_draws ''s'' 100 5 ''baseline'' None 0.15 None
       = (Inl (ValueError ''No active investments for simulation''), exited_db)"
proof -
  have h: "active_investments exited_db = []"
    by (simp add: active_investments_def exited_db_def empty_db_def holding_def)
  from run_simulation_no_active_investments [OF h] h show ?thesis by simp
qed

text \<open>
  C3 as stated fails on the class of the error: the exception raised on an empty
  database is a \<^verbatim>\<open>ValueError\<close>, and the code declares no class
  \<^verbatim>\<open>InsufficientDataError\<close>.
\<close>

theorem no_insufficient_data_error:
  "fst (run_simulation empty_db 0 zero_draws ''s'' 100 5 ''baseline'' None 0.15 None)
     = Inl (ValueError ''No active investments for simulation'')
   \<and> exception_class (ValueError ''No active investments for simulation'') = ''ValueError''
   \<and> ''ValueError'' \<noteq> ''InsufficientDataError''"
  by (simp add: run_simulation_def active_investments_def empty_db_def)

theorem run_simulation_negative_iterations_witness:
  "(- 1 :: int) < 0
   \<and> run_simulation unassessed_db 0 zero_draws ''s'' (- 1) 5 ''baseline'' None 0.15 None
       = (Inl StatisticsError, unassessed_db)
   \<and> run_simulation overflow_db 1 zero_draws ''s'' (- 1) 5 ''baseline'' None 0.15 None
       = (Inl OverflowError, overflow_db)"
proof -
  have h: "(- 1 :: int) < 0" by simp
  have a: "active_investments unassessed_db \<noteq> []"
    by (simp add: active_investments_def unassessed_db_def empty_db_def holding_def)
  have b: "active_investments overflow_db \<noteq> []"
    by (simp add: active_investments_def overflow_db_def empty_db_def holding_def)
  from run_simulation_negative_iterations [OF h, of unassessed_db 0]
    run_simulation_negative_iterations [OF h, of overflow_db 1] a b h
  show ?thesis by (simp add: unassessed_inputs overflowing_inputs)
qed

text \<open>
  C8 as stated fails: with the iteration count \<open>- 1\<close> the outcome depends on the holdings
  in the database, so the count is not rejected before the computation starts, and with
  an active holding the error comes from the statistics of the empty result series.
\<close>

theorem negative_iterations_not_rejected_first:
  "fst (run_simulation empty_db 0 zero_draws ''s'' (- 1) 5 ''baseline'' None 0.15 None)
     = Inl (ValueError ''No active investments for simulation'')
   \<and> fst (run_simulation unassessed_db 0 zero_draws ''s'' (- 1) 5 ''baseline'' None 0.15 None)
     = Inl StatisticsError"
proof
  show "fst (run_simulation empty_db 0 zero_draws ''s'' (- 1) 5 ''baseline'' None 0.15 None)
     = Inl (ValueError ''No active investments for simulation'')"
    by (simp add: run_simulation_def active_investments_def empty_db_def)
next
  have a: "active_investments unassessed_db \<noteq> []"
    by (simp add: active_investments_def unassessed_db_def empty_db_def holding_def)
  show "fst (run_simulation unassessed_db 0 zero_draws ''s'' (- 1) 5 ''baseline'' None 0.15 None)
     = Inl StatisticsError"
    using a
    by (simp add: run_simulation_def Let_def unassessed_inputs simulate_def run_iterations_def
        simulation_data_def mean_def)
qed

section \<open>Properties of the descriptive statistics\<close>

lemma map_of_fold_update:
  "map_of (fold (\<lambda>p. AList.update p (f p)) ps acc) q
     = (if q \<in> set ps then Some (f q) else map_of acc q)"
proof (induction ps arbitrary: acc)
  case Nil
  show ?case by simp
next
  case (Cons p ps)
  show ?case by (simp add: Cons.IH update_conv')
qed

lemma py_int_quarter: "py_int (real n * 0.25) = int (n * 25 div 100)"
proof -
  have "real n * 0.25 = real (n * 25) / 100" by simp
  then show ?thesis by (simp only: py_int_percent)
qed

lemma py_int_three_quarters: "py_int (real n * 0.75) = int (n * 75 div 100)"
proof -
  have "real n * 0.75 = real (n * 75) / 100" by simp
  then show ?thesis by (simp only: py_int_percent)
qed

lemma rank_in_range: "0 < (n::nat) \<Longrightarrow> p < 100 \<Longrightarrow> n * p div 100 < n"
proof -
  assume "0 < n" "p < 100"
  then have "n * p < n * 100" by simp
  then show ?thesis by (simp add: less_mult_imp_div_less mult.commute)
qed

lemma median_nonempty:
  assumes "vals \<noteq> []"
  shows "median vals =
     Inr (if length vals mod 2 = 1 then sort vals ! (length vals div 2)
          else (sort vals ! (length vals div 2 - 1) + sort vals ! (length vals div 2)) / 2)"
  using assms by (simp add: median_def Let_def sort_nonempty)

lemma element_or_none_rank:
  assumes "sv \<noteq> []" and "p < 100"
  shows "element_or_none sv (int (length sv * p div 100))
           = Inr (Some (sv ! min (length sv * p div 100) (length sv - 1)))"
proof -
  from assms have lt: "length sv * p div 100 < length sv"
    by (intro rank_in_range) simp_all
  then have "min (length sv * p div 100) (length sv - 1) = length sv * p div 100"
    by simp
  with lt assms show ?thesis
    by (simp add: element_or_none_def py_index_in_range)
qed

lemma calc_stats_nonempty:
  assumes "vals \<noteq> []"
  shows "\<exists>med. median vals = Inr med \<and>
     calc_stats vals =
       Inr (Some (sum_list vals / real (length vals)), Some med,
            Some (sort vals ! min (length vals * 25 div 100) (length vals - 1)),
            Some (sort vals ! min (length vals * 75 div 100) (length vals - 1)))"
proof -
  from assms have ne: "sort vals \<noteq> []" by (rule sort_nonempty)
  from median_nonempty [OF assms] obtain med where med: "median vals = Inr med"
    by blast
  have a: "element_or_none (sort vals) (py_int (real (length (sort vals)) * 0.25))
      = Inr (Some (sort vals ! min (length vals * 25 div 100) (length vals - 1)))"
    using element_or_none_rank [OF ne, of 25] by (simp only: py_int_quarter) simp
  have b: "element_or_none (sort vals) (py_int (real (length (sort vals)) * 0.75))
      = Inr (Some (sort vals ! min (length vals * 75 div 100) (length vals - 1)))"
    using element_or_none_rank [OF ne, of 75] by (simp only: py_int_three_quarters) simp
  have mn: "mean vals = Inr (sum_list vals / real (length vals))"
    using assms by (rule mean_nonempty)
  have "calc_stats vals =
       Inr (Some (sum_list vals / real (length vals)), Some med,
            Some (sort vals ! min (length vals * 25 div 100) (length vals - 1)),
            Some (sort vals ! min (length vals * 75 div 100) (length vals - 1)))"
    unfolding calc_stats_def Let_def
    by (simp only: a b mn med assms sum.case if_False)
  with med show ?thesis by blast
qed

text \<open>
  C2. For a metric vector of size \<open>n \<ge> 1\<close>, percentile \<open>p\<close> is the element of the sorted
  vector at index \<open>floor (n * p / 100)\<close> clamped to \<open>n - 1\<close>, without interpolation: so
  in the table of \<open>calc_percentiles\<close> for every requested \<open>p\<close>, and so for the 25th and
  75th percentile of \<open>calc_stats\<close>, which never raises on a non-empty vector. For an odd
  \<open>n\<close> the 50th percentile is the median. On \<open>[40, 60, 80]\<close> the statistics are mean 60,
  median 60, 25th percentile 40 and 75th percentile 80.
\<close>

theorem percentile_nearest_rank:
  assumes "vals \<noteq> []"
  shows "(\<exists>table. calc_percentiles vals ps = Inr table
            \<and> (\<forall>p\<in>set ps. map_of table p
                  = Some (sort vals ! min (length vals * p div 100) (length vals - 1))))
    \<and> (\<exists>med. median vals = Inr med
          \<and> calc_stats vals =
              Inr (Some (sum_list vals / real (length vals)), Some med,
                   Some (sort vals ! min (length vals * 25 div 100) (length vals - 1)),
                   Some (sort vals ! min (length vals * 75 div 100) (length vals - 1)))
          \<and> (odd (length vals) \<longrightarrow>
                (\<exists>table. calc_percentiles vals default_percentiles = Inr table
                   \<and> map_of table 50 = Some med)))
    \<and> calc_stats [40, 60, 80] = Inr (Some 60, Some 60, Some 40, Some 80)"
proof (intro conjI)
  from assms have ne: "sort vals \<noteq> []" by (rule sort_nonempty)
  let ?f = "\<lambda>p. sort vals ! min (length vals * p div 100) (length vals - 1)"
  have closed: "calc_percentiles vals qs = Inr (fold (\<lambda>p. AList.update p (?f p)) qs [])" for qs
    using calc_percentiles_loop_closed [OF ne] by (simp add: calc_percentiles_def)
  show "\<exists>table. calc_percentiles vals ps = Inr table
            \<and> (\<forall>p\<in>set ps. map_of table p = Some (?f p))"
    by (simp add: closed map_of_fold_update)
  from calc_stats_nonempty [OF assms] obtain med where
    med: "median vals = Inr med"
    and st: "calc_stats vals =
              Inr (Some (sum_list vals / real (length vals)), Some med,
                   Some (?f 25), Some (?f 75))"
    by blast
  have "\<exists>table. calc_percentiles vals default_percentiles = Inr table
          \<and> map_of table 50 = Some med" if odd: "odd (length vals)"
  proof -
    from odd have "length vals mod 2 = 1" by (simp add: odd_iff_mod_2_eq_one)
    with med median_nonempty [OF assms] have m: "med = sort vals ! (length vals div 2)"
      by simp
    from assms have "length vals div 2 \<le> length vals - 1" by (cases vals) auto
    then have "?f 50 = sort vals ! (length vals div 2)" by simp
    with m show ?thesis
      by (simp add: closed map_of_fold_update default_percentiles_def)
  qed
  with med st show "\<exists>med. median vals = Inr med
          \<and> calc_stats vals =
              Inr (Some (sum_list vals / real (length vals)), Some med,
                   Some (?f 25), Some (?f 75))
          \<and> (odd (length vals) \<longrightarrow>
                (\<exists>table. calc_percentiles vals default_percentiles = Inr table
                   \<and> map_of table 50 = Some med))"
    by blast
  show "calc_stats [40, 60, 80] = Inr (Some 60, Some 60, Some 40, Some 80)"
    by (simp add: calc_stats_def mean_def median_def element_or_none_def py_index_def
        py_int_def Let_def)
qed

theorem percentile_nearest_rank_witness:
  "[40, 60, 80 :: real] \<noteq> []
   \<and> odd (length [40, 60, 80 :: real])
   \<and> median [40, 60, 80] = Inr 60
   \<and> (\<exists>table. calc_percentiles [40, 60, 80] default_percentiles = Inr table
        \<and> map_of table 50 = Some 60 \<and> map_of table 25 = Some 40 \<and> map_of table 75 = Some 80
        \<and> map_of table 95 = Some 80)"
proof -
  have h: "[40, 60, 80 :: real] \<noteq> []" by simp
  have s: "sort [40, 60, 80 :: real] = [40, 60, 80]" by simp
  have m: "median [40, 60, 80] = Inr 60" by (simp add: median_def Let_def)
  from percentile_nearest_rank [OF h, of default_percentiles] m show ?thesis
    by (auto simp: default_percentiles_def s)
qed

section \<open>Zero and missing observations\<close>

subsection \<open>Zero observations in peer benchmarking\<close>

lemma fold_latest_map:
  assumes "\<And>r. date_of (f r) = date_of r"
  shows "fold (\<lambda>a b. if date_of b < date_of a then a else b) (map f rs) (f r)
       = f (fold (\<lambda>a b. if date_of b < date_of a then a else b) rs r)"
  by (induction rs arbitrary: r) (simp_all add: assms)

lemma latest_map:
  assumes "\<And>r. inv_of (f r) = inv_of r" and "\<And>r. date_of (f r) = date_of r"
  shows "latest inv_of date_of (map f rows) i = map_option f (latest inv_of date_of rows i)"
proof -
  have "filter (\<lambda>r. inv_of r = i) (map f rows) = map f (filter (\<lambda>r. inv_of r = i) rows)"
    by (simp add: filter_map o_def assms(1))
  then show ?thesis
    by (simp add: latest_def fold_latest_map assms(2) split: list.splits)
qed

lemma append_if_truthy_zero_as_missing:
  "append_if_truthy (zero_as_missing v) xs = append_if_truthy v xs"
  by (cases v) (simp_all add: append_if_truthy_def zero_as_missing_def truthy_def)

lemma append_if_truthy_int_zero_as_missing:
  "append_if_truthy_int (zero_as_missing_int v) xs = append_if_truthy_int v xs"
  by (cases v) (simp_all add: append_if_truthy_int_def zero_as_missing_int_def truthy_int_def)

lemma column_map_option: "column (map_option f row) col = column row (\<lambda>r. col (f r))"
  by (cases row) (simp_all add: column_def)

lemma append_column_zero_as_missing:
  "append_if_truthy (column row (\<lambda>r. zero_as_missing (col r))) xs
     = append_if_truthy (column row col) xs"
  by (cases row) (simp_all add: column_def append_if_truthy_zero_as_missing)

lemma append_column_zero_as_missing_int:
  "append_if_truthy_int (column row (\<lambda>r. zero_as_missing_int (col r))) xs
     = append_if_truthy_int (column row col) xs"
  by (cases row) (simp_all add: column_def append_if_truthy_int_zero_as_missing)

lemma roi_of_without_zeros: "roi_of (investment_without_zeros invst) = roi_of invst"
  by (simp add: roi_of_def investment_without_zeros_def zero_as_missing_def truthy_def
      split: option.splits)

lemma latest_esg_zeros:
  "latest_esg (zeros_as_missing db) i = map_option esg_without_zeros (latest_esg db i)"
  unfolding latest_esg_def zeros_as_missing_def
  by (simp add: latest_map esg_without_zeros_def)

lemma latest_risk_zeros:
  "latest_risk (zeros_as_missing db) i = map_option risk_without_zeros (latest_risk db i)"
  unfolding latest_risk_def zeros_as_missing_def
  by (simp add: latest_map risk_without_zeros_def)

lemma latest_impact_zeros:
  "latest_impact (zeros_as_missing db) i = map_option impact_without_zeros (latest_impact db i)"
  unfolding latest_impact_def zeros_as_missing_def
  by (simp add: latest_map impact_without_zeros_def)

lemma latest_emissions_zeros:
  "latest_emissions (zeros_as_missing db) i
     = map_option emissions_without_zeros (latest_emissions db i)"
  unfolding latest_emissions_def zeros_as_missing_def
  by (simp add: latest_map emissions_without_zeros_def)

lemma collect_metrics_step_zeros:
  "collect_metrics_step (zeros_as_missing db) (investment_without_zeros invst) m
     = collect_metrics_step db invst m"
proof -
  have i: "inv_id (investment_without_zeros invst) = inv_id invst"
    "investment_amount (investment_without_zeros invst) = zero_as_missing (investment_amount invst)"
    by (simp_all add: investment_without_zeros_def)
  show ?thesis
    unfolding collect_metrics_step_def Let_def
    by (simp add: i latest_esg_zeros latest_risk_zeros latest_impact_zeros
        latest_emissions_zeros column_map_option roi_of_without_zeros
        esg_without_zeros_def risk_without_zeros_def impact_without_zeros_def
        emissions_without_zeros_def append_if_truthy_zero_as_missing
        append_column_zero_as_missing append_column_zero_as_missing_int)
qed

lemma collect_metrics_zeros:
  "collect_metrics (zeros_as_missing db) (map investment_without_zeros investments)
     = collect_metrics db investments"
proof -
  have "fold (collect_metrics_step (zeros_as_missing db)) (map investment_without_zeros invs) m
      = fold (collect_metrics_step db) invs m" for invs m
    by (induction invs arbitrary: m) (simp_all add: collect_metrics_step_zeros)
  then show ?thesis by (simp add: collect_metrics_def)
qed

lemma matching_investments_zeros:
  "matching_investments (zeros_as_missing db) s i r
     = map investment_without_zeros (matching_investments db s i r)"
  by (simp add: matching_investments_def zeros_as_missing_def filter_map o_def
      investment_without_zeros_def)

lemma calculate_benchmarks_zeros:
  "fst (calculate_benchmarks (zeros_as_missing db) today s i r)
     = fst (calculate_benchmarks db today s i r)"
  unfolding calculate_benchmarks_def Let_def
  by (simp add: matching_investments_zeros collect_metrics_zeros split: sum.splits)

lemma append_if_truthy_no_zero: "0 \<notin> set xs \<Longrightarrow> 0 \<notin> set (append_if_truthy v xs)"
  by (cases v) (simp_all add: append_if_truthy_def)

lemma append_if_truthy_int_no_zero: "0 \<notin> set xs \<Longrightarrow> 0 \<notin> set (append_if_truthy_int v xs)"
  by (cases v) (simp_all add: append_if_truthy_int_def)

lemma zero_free_step: "zero_free m \<Longrightarrow> zero_free (collect_metrics_step db invst m)"
  unfolding zero_free_def collect_metrics_step_def Let_def
  by (simp add: append_if_truthy_no_zero append_if_truthy_int_no_zero)

lemma zero_free_collect: "zero_free (collect_metrics db investments)"
proof -
  have "zero_free m \<Longrightarrow> zero_free (fold (collect_metrics_step db) invs m)" for invs m
    by (induction invs arbitrary: m) (simp_all add: zero_free_step)
  moreover have "zero_free no_metrics" by (simp add: zero_free_def no_metrics_def)
  ultimately show ?thesis by (simp add: collect_metrics_def)
qed

lemma roi_of_zero_amount:
  "investment_amount invst = Some 0 \<or> current_value invst = Some 0 \<Longrightarrow> roi_of invst = None"
  by (auto simp: roi_of_def truthy_def)

text \<open>
  C10. Benchmark metric extraction tests an observation for truthiness, so an
  observation of exactly 0 counts as a missing one: no vector of scores, amounts,
  beneficiaries or intensities ever contains a 0, a holding whose amount or current
  value is 0 adds no return, and the metric vectors and the benchmark row computed from
  a database are the ones computed from the database in which every such 0 is replaced
  by NULL.
\<close>

theorem zero_observation_is_missing:
  "collect_metrics (zeros_as_missing db) (map investment_without_zeros investments)
     = collect_metrics db investments
   \<and> fst (calculate_benchmarks (zeros_as_missing db) today s i r)
     = fst (calculate_benchmarks db today s i r)
   \<and> zero_free (collect_metrics db investments)
   \<and> (investment_amount invst = Some 0 \<or> current_value invst = Some 0
        \<longrightarrow> rois (collect_metrics_step db invst m) = rois m)"
proof -
  have "rois (collect_metrics_step db invst m) = rois m"
    if "investment_amount invst = Some 0 \<or> current_value invst = Some 0"
    using roi_of_zero_amount [OF that] by (simp add: collect_metrics_step_def Let_def)
  then show ?thesis
    by (simp add: collect_metrics_zeros calculate_benchmarks_zeros zero_free_collect)
qed

lemma zero_score_metrics:
  "collect_metrics zero_score_db (tbl_investments zero_score_db)
     = no_metrics\<lparr>esg_scores := [60], rois := [50], investment_sizes := [100, 100]\<rparr>"
  by (simp add: collect_metrics_def collect_metrics_step_def zero_score_db_def empty_db_def
      holding_def latest_esg_def latest_risk_def latest_impact_def latest_emissions_def
      latest_def column_def append_if_truthy_def append_if_truthy_int_def roi_of_def
      truthy_def or_zero_def no_metrics_def Let_def)

theorem zero_observation_is_missing_witness:
  "current_value (holding 1 ''active'' (Some 100) (Some 0)) = Some 0
   \<and> rois (collect_metrics_step zero_score_db (holding 1 ''active'' (Some 100) (Some 0)) no_metrics)
       = []
   \<and> esg_scores (collect_metrics zero_score_db (tbl_investments zero_score_db)) = [60]
   \<and> collect_metrics (zeros_as_missing zero_score_db)
        (map investment_without_zeros (tbl_investments zero_score_db))
       = collect_metrics zero_score_db (tbl_investments zero_score_db)"
proof -
  have h: "current_value (holding 1 ''active'' (Some 100) (Some 0)) = Some 0"
    by (simp add: holding_def)
  from zero_observation_is_missing [of zero_score_db "tbl_investments zero_score_db" 0 None None
      None "holding 1 ''active'' (Some 100) (Some 0)" no_metrics] h
  show ?thesis by (simp add: zero_score_metrics no_metrics_def)
qed

subsection \<open>Missing assessments\<close>

text \<open>
  C7 as stated fails: the Monte Carlo simulator gives a holding without any assessment
  and without an investment date the return 8, the impact 5 and the ESG score 50, and the
  stored means are computed from these substitutes.
\<close>

theorem defaults_for_unassessed_holding:
  "collect_investment_data unassessed_db 0 (active_investments unassessed_db)
     = Inr [\<lparr>weight = 1, annual_roi = Flt 8, impact = Some 5, esg = Some 50\<rparr>]
   \<and> map_sum id stored_means
        (fst (run_simulation unassessed_db 0 zero_draws ''s'' 2 1 ''baseline'' None 0 None))
     = Inr (8, 5, 50)"
proof
  show "collect_investment_data unassessed_db 0 (active_investments unassessed_db)
     = Inr [\<lparr>weight = 1, annual_roi = Flt 8, impact = Some 5, esg = Some 50\<rparr>]"
    using unassessed_inputs by (simp add: one_holding_def)
next
  have a: "active_investments unassessed_db \<noteq> []"
    by (simp add: active_investments_def unassessed_db_def empty_db_def holding_def)
  have it: "run_iterations [one_holding] 2 1 0 zero_draws
      = Inr ([Flt 8, Flt 8], [5, 5], [50, 50])"
    unfolding run_iterations_def
    using single_holding_loop [of one_holding 8 5 50 "nat 2" 1 zero_draws 0 "[]" "[]" "[]"]
    by (simp add: one_holding_def numeral_2_eq_2)
  have fl: "as_floats [Flt 8, Flt 8] = Inr [8, 8]" by simp
  have "\<exists>sim. simulation_data ''s'' 0 2 1 ''baseline'' None 0 None
          ([Flt 8, Flt 8], [5, 5], [50, 50]) = Inr sim"
    by (rule simulation_data_total [OF fl]) simp_all
  then obtain sim where
    sd: "simulation_data ''s'' 0 2 1 ''baseline'' None 0 None ([Flt 8, Flt 8], [5, 5], [50, 50])
           = Inr sim"
    by blast
  from sd obtain rv where "as_floats [Flt 8, Flt 8] = Inr rv"
    and "mean rv = Inr (expected_roi sim)"
    and "mean [5, 5] = Inr (expected_impact_score sim)"
    and "mean [50, 50] = Inr (expected_esg_score sim)"
    by (rule simulation_data_Inr)
  then have "stored_means sim = (8, 5, 50)"
    by (auto simp: stored_means_def mean_def)
  with a it sd show "map_sum id stored_means
        (fst (run_simulation unassessed_db 0 zero_draws ''s'' 2 1 ''baseline'' None 0 None))
     = Inr (8, 5, 50)"
    by (simp add: run_simulation_def Let_def unassessed_inputs simulate_def)
qed

text \<open>
  C7, as amended. In peer benchmarking a holding without an ESG, climate-risk,
  social-impact or emissions row, or without an amount or current value, adds no
  observation to the corresponding metric vectors. The Monte Carlo simulator keeps one
  entry per holding and substitutes impact 5 when the holding has no social-impact row,
  ESG 50 when it has no ESG row, and annual return 8 when its date, amount or current
  value is missing; the correlation engine gives a holding without amount or current
  value the return 0.
\<close>

theorem missing_assessment_handling:
  "(latest_esg db (inv_id invst) = None \<longrightarrow>
      esg_scores (collect_metrics_step db invst m) = esg_scores m)
   \<and> (latest_risk db (inv_id invst) = None \<longrightarrow>
      physical_risks (collect_metrics_step db invst m) = physical_risks m
      \<and> transition_risks (collect_metrics_step db invst m) = transition_risks m
      \<and> climate_opportunities (collect_metrics_step db invst m) = climate_opportunities m)
   \<and> (latest_impact db (inv_id invst) = None \<longrightarrow>
      impact_scores (collect_metrics_step db invst m) = impact_scores m
      \<and> beneficiaries (collect_metrics_step db invst m) = beneficiaries m)
   \<and> (latest_emissions db (inv_id invst) = None \<longrightarrow>
      emissions_intensities (collect_metrics_step db invst m) = emissions_intensities m)
   \<and> (investment_amount invst = None \<or> current_value invst = None \<longrightarrow>
      rois (collect_metrics_step db invst m) = rois m)
   \<and> (collect_investment_data db today investments = Inr ds \<longrightarrow>
      length ds = length investments)
   \<and> (latest_impact db (inv_id invst) = None \<longrightarrow>
      impact (investment_data_of db pv invst a) = Some 5)
   \<and> (latest_esg db (inv_id invst) = None \<longrightarrow>
      esg (investment_data_of db pv invst a) = Some 50)
   \<and> (investment_date invst = None \<or> investment_amount invst = None
        \<or> current_value invst = None \<longrightarrow>
      annual_roi_of today invst = Inr (Flt 8))
   \<and> (investment_amount invst = None \<or> current_value invst = None \<longrightarrow>
      map_option roi (data_point_of db invst) = map_option (\<lambda>p. 0) (data_point_of db invst))"
proof -
  have r: "roi_of invst = None"
    if "investment_amount invst = None \<or> current_value invst = None"
    using that by (auto simp: roi_of_def truthy_def)
  have c1: "latest_esg db (inv_id invst) = None \<longrightarrow>
      esg_scores (collect_metrics_step db invst m) = esg_scores m"
    by (simp add: collect_metrics_step_def Let_def column_def append_if_truthy_def)
  have c2: "latest_risk db (inv_id invst) = None \<longrightarrow>
      physical_risks (collect_metrics_step db invst m) = physical_risks m
      \<and> transition_risks (collect_metrics_step db invst m) = transition_risks m
      \<and> climate_opportunities (collect_metrics_step db invst m) = climate_opportunities m"
    by (simp add: collect_metrics_step_def Let_def column_def append_if_truthy_def)
  have c3: "latest_impact db (inv_id invst) = None \<longrightarrow>
      impact_scores (collect_metrics_step db invst m) = impact_scores m
      \<and> beneficiaries (collect_metrics_step db invst m) = beneficiaries m"
    by (simp add: collect_metrics_step_def Let_def column_def append_if_truthy_def
        append_if_truthy_int_def)
  have c4: "latest_emissions db (inv_id invst) = None \<longrightarrow>
      emissions_intensities (collect_metrics_step db invst m) = emissions_intensities m"
    by (simp add: collect_metrics_step_def Let_def column_def append_if_truthy_def)
  have c5: "investment_amount invst = None \<or> current_value invst = None \<longrightarrow>
      rois (collect_metrics_step db invst m) = rois m"
    using r by (simp add: collect_metrics_step_def Let_def)
  have c6: "collect_investment_data db today investments = Inr ds \<longrightarrow>
      length ds = length investments"
    by (auto simp: collect_investment_data_def dest: collect_loop_length)
  have c7: "latest_impact db (inv_id invst) = None \<longrightarrow>
      impact (investment_data_of db pv invst a) = Some 5"
    by (simp add: investment_data_of_def)
  have c8: "latest_esg db (inv_id invst) = None \<longrightarrow>
      esg (investment_data_of db pv invst a) = Some 50"
    by (simp add: investment_data_of_def)
  have c9: "investment_date invst = None \<or> investment_amount invst = None
        \<or> current_value invst = None \<longrightarrow>
      annual_roi_of today invst = Inr (Flt 8)"
    by (auto simp: annual_roi_of_def truthy_def split: option.splits)
  have "map_option roi (data_point_of db invst)
             = map_option (\<lambda>p. 0) (data_point_of db invst)"
    if "roi_of invst = None"
    using that by (simp add: data_point_of_def Let_def split: option.splits)
  with r have c10: "investment_amount invst = None \<or> current_value invst = None \<longrightarrow>
      map_option roi (data_point_of db invst) = map_option (\<lambda>p. 0) (data_point_of db invst)"
    by blast
  from c1 c2 c3 c4 c5 c6 c7 c8 c9 c10 show ?thesis by (intro conjI)
qed

theorem missing_assessment_handling_witness:
  "latest_esg unassessed_db 1 = None \<and> latest_risk unassessed_db 1 = None
   \<and> latest_impact unassessed_db 1 = None \<and> latest_emissions unassessed_db 1 = None
   \<and> investment_date (holding 1 ''active'' (Some 100) (Some 120)) = None
   \<and> collect_metrics_step unassessed_db (holding 1 ''active'' None (Some 120)) no_metrics
       = no_metrics
   \<and> impact (investment_data_of unassessed_db 120 (holding 1 ''active'' None (Some 120)) (Flt 8))
       = Some 5
   \<and> esg (investment_data_of unassessed_db 120 (holding 1 ''active'' None (Some 120)) (Flt 8))
       = Some 50
   \<and> annual_roi_of 0 (holding 1 ''active'' None (Some 120)) = Inr (Flt 8)
   \<and> collect_investment_data unassessed_db 0 (active_investments unassessed_db)
       = Inr [one_holding]
   \<and> length [one_holding] = length (active_investments unassessed_db)
   \<and> data_point_of assessed_db (holding 1 ''active'' None (Some 120))
       = Some \<lparr>data_point.esg = 70, risk = 4, data_point.impact = 6, roi = 0\<rparr>"
proof -
  have l: "latest_esg assessed_db 1 =
        Some \<lparr>ESGScore.investment_id = 1, ESGScore.assessment_date = 10,
              overall_esg_score = Some 70\<rparr>"
    "latest_risk assessed_db 1 =
        Some \<lparr>ClimateRisk.investment_id = 1, ClimateRisk.assessment_date = 10,
              physical_risk_score = None, transition_risk_score = Some 4,
              climate_opportunity_score = None\<rparr>"
    "latest_impact assessed_db 1 =
        Some \<lparr>SocialImpact.investment_id = 1, SocialImpact.assessment_date = 10,
              overall_impact_score = Some 6, beneficiaries_reached = None\<rparr>"
    by (simp_all add: latest_esg_def latest_risk_def latest_impact_def latest_def
        assessed_db_def empty_db_def)
  have k: "inv_id (holding 1 ''active'' None (Some 120)) = 1"
    "investment_amount (holding 1 ''active'' None (Some 120)) = None"
    by (simp_all add: holding_def)
  have "\<exists>r. data_point_of assessed_db (holding 1 ''active'' None (Some 120))
       = Some \<lparr>data_point.esg = 70, risk = 4, data_point.impact = 6, roi = r\<rparr>"
    unfolding data_point_of_def Let_def k l
    by (simp add: column_def or_zero_def)
  then obtain r where dp: "data_point_of assessed_db (holding 1 ''active'' None (Some 120))
       = Some \<lparr>data_point.esg = 70, risk = 4, data_point.impact = 6, roi = r\<rparr>"
    by blast
  from missing_assessment_handling [where db = assessed_db
      and invst = "holding 1 ''active'' None (Some 120)"] k(2)
  have "map_option roi (data_point_of assessed_db (holding 1 ''active'' None (Some 120)))
      = map_option (\<lambda>p. 0) (data_point_of assessed_db (holding 1 ''active'' None (Some 120)))"
    by blast
  with dp have point: "data_point_of assessed_db (holding 1 ''active'' None (Some 120))
       = Some \<lparr>data_point.esg = 70, risk = 4, data_point.impact = 6, roi = 0\<rparr>"
    by simp
  have h: "latest_esg unassessed_db 1 = None" "latest_risk unassessed_db 1 = None"
    "latest_impact unassessed_db 1 = None" "latest_emissions unassessed_db 1 = None"
    by (simp_all add: latest_esg_def latest_risk_def latest_impact_def latest_emissions_def
        latest_def unassessed_db_def empty_db_def)
  have i: "inv_id (holding 1 ''active'' None (Some 120)) = 1"
    "investment_amount (holding 1 ''active'' None (Some 120)) = None"
    "investment_date (holding 1 ''active'' (Some 100) (Some 120)) = None"
    by (simp_all add: holding_def)
  note inst = missing_assessment_handling [where db = unassessed_db
      and invst = "holding 1 ''active'' None (Some 120)" and m = no_metrics and today = 0
      and investments = "active_investments unassessed_db" and ds = "[one_holding]"
      and pv = 120 and a = "Flt 8"]
  from inst unassessed_inputs
  have len: "length [one_holding] = length (active_investments unassessed_db)"
    by blast
  from inst h i
  have "esg_scores (collect_metrics_step unassessed_db (holding 1 ''active'' None (Some 120))
          no_metrics) = []
     \<and> rois (collect_metrics_step unassessed_db (holding 1 ''active'' None (Some 120))
          no_metrics) = []
     \<and> impact (investment_data_of unassessed_db 120 (holding 1 ''active'' None (Some 120))
          (Flt 8)) = Some 5
     \<and> esg (investment_data_of unassessed_db 120 (holding 1 ''active'' None (Some 120))
          (Flt 8)) = Some 50
     \<and> annual_roi_of 0 (holding 1 ''active'' None (Some 120)) = Inr (Flt 8)"
    by (simp add: no_metrics_def)
  moreover have "collect_metrics_step unassessed_db (holding 1 ''active'' None (Some 120))
      no_metrics = no_metrics"
    using h i
    by (simp add: collect_metrics_step_def Let_def column_def append_if_truthy_def
        append_if_truthy_int_def roi_of_def truthy_def no_metrics_def holding_def)
  ultimately show ?thesis using h i point unassessed_inputs len by simp
qed

end
